theory Spec2Isabelle
  imports Complex_Main
begin

section \<open>Data model\<close>

text \<open>
  The two classes \<open>ETD\<close> (ETD.cpp) and \<open>TOETD\<close> (TOETD.cpp) are embedded as records
  with explicit state passing. The fields keep the names of the C++ members behind a
  prefix (\<open>n\<close>, \<open>theta\<close>, \<open>e\<close>, \<open>F\<close>, \<open>D\<close>, \<open>gamma\<close> are wanted as variable names).

  The scalar type \<open>double\<close> is kept abstract as a type \<open>'a\<close> with the operations the code
  uses (\<open>0\<close>, \<open>1\<close>, \<open>+\<close>, \<open>-\<close>, \<open>*\<close>); every expression keeps the association and the
  evaluation order of the C++ expression. Theorems that need no law of arithmetic are
  proved for every such \<open>'a\<close>. Theorems that say which expressions the code evaluates are
  proved over a commutative ring or over \<open>real\<close>, the number type of the specification's
  data model, and do not speak about rounding, overflow or NaN. Theorems that rest on
  \<open>0 * x = 0\<close> are proved from the laws of floating-point arithmetic alone, for finite
  values, and overflow and NaN are shown on the type \<open>dbl\<close> below.

  The member \<open>int n\<close> is an \<open>int\<close>: the loop counter \<open>i\<close> stays below \<open>n\<close>, so no
  machine wrap-around can occur. The arrays \<open>double *\<close> are lists.
\<close>

datatype error =
    BadArrayNewLength   \<comment> \<open>\<open>new double[n]\<close> with \<open>n < 0\<close>\<close>
  | OutOfBounds         \<comment> \<open>a read or write past the end of an array (undefined behaviour)\<close>

record 'a ETD =
  etd_n :: int
  etd_theta :: "'a list"
  etd_e :: "'a list"
  etd_F :: 'a
  etd_D :: 'a

record 'a TOETD =
  to_theta :: "'a list"
  to_e :: "'a list"
  to_n :: int
  to_F :: 'a
  to_D :: 'a
  to_gamma :: 'a

text \<open>
  \<open>new double[n]\<close> yields \<open>n\<close> cells of indeterminate content; it does not succeed for a
  negative \<open>n\<close>, and for \<open>n = 0\<close> it yields a valid empty array. What the fresh cells
  hold is a parameter \<open>junk\<close> of the model: cell \<open>i\<close> holds \<open>junk i\<close>.
\<close>

definition new_array :: "int \<Rightarrow> (nat \<Rightarrow> 'a) \<Rightarrow> error + 'a list" where
  "new_array n junk = (if n < 0 then Inl BadArrayNewLength else Inr (map junk [0..<nat n]))"

text \<open>An array of at least \<open>n\<close> cells: every index \<open>0 \<le> i < n\<close> is in range.\<close>

definition in_bounds :: "int \<Rightarrow> 'a list \<Rightarrow> bool" where
  "in_bounds n v = (nat n \<le> length v)"

section \<open>ETD.cpp\<close>

subsection \<open>\<open>ETD::ETD\<close>\<close>

text \<open>The initialisation loop \<open>for (int i=0; i<n; i++) { e[i] = 0; theta[i] = 0; }\<close>.\<close>

function ETD_init_loop :: "int \<Rightarrow> int \<Rightarrow> 'a list \<times> 'a list \<Rightarrow> ('a::zero) list \<times> 'a list" where
  "ETD_init_loop n i st =
     (if i < n
      then ETD_init_loop n (i + 1) (case st of (e, theta) \<Rightarrow> (e[nat i := 0], theta[nat i := 0]))
      else st)"
  by pat_completeness auto
termination
  by (relation "measure (\<lambda>(n, i, st). nat (n - i))") auto

declare ETD_init_loop.simps [simp del]

definition ETD_new :: "int \<Rightarrow> (nat \<Rightarrow> 'a) \<Rightarrow> (nat \<Rightarrow> 'a) \<Rightarrow> error + ('a::zero) ETD" where
  "ETD_new fvec_length junk_e junk_theta =
     (case new_array fvec_length junk_e of
        Inl err \<Rightarrow> Inl err
      | Inr e0 \<Rightarrow>
         (case new_array fvec_length junk_theta of
            Inl err \<Rightarrow> Inl err
          | Inr theta0 \<Rightarrow>
             (case ETD_init_loop fvec_length 0 (e0, theta0) of
                (e1, theta1) \<Rightarrow>
                  Inr \<lparr>etd_n = fvec_length, etd_theta = theta1, etd_e = e1,
                       etd_F = 0, etd_D = 0\<rparr>)))"

subsection \<open>\<open>ETD::dot\<close>\<close>

function ETD_dot_loop :: "int \<Rightarrow> 'a list \<Rightarrow> 'a list \<Rightarrow> int \<Rightarrow> 'a \<Rightarrow> 'a::{plus,times}" where
  "ETD_dot_loop n v1 v2 i ret =
     (if i < n then ETD_dot_loop n v1 v2 (i + 1) (ret + v1 ! nat i * v2 ! nat i) else ret)"
  by pat_completeness auto
termination
  by (relation "measure (\<lambda>(n, v1, v2, i, ret). nat (n - i))") auto

declare ETD_dot_loop.simps [simp del]

text \<open>
  \<open>dot\<close> reads the first \<open>n\<close> cells of both arrays, \<open>n\<close> being the member of the object.
  Its callers below check that these reads are in range.
\<close>

definition ETD_dot :: "int \<Rightarrow> 'a list \<Rightarrow> 'a list \<Rightarrow> 'a::{zero,plus,times}" where
  "ETD_dot n v1 v2 = ETD_dot_loop n v1 v2 0 0"

subsection \<open>\<open>ETD::learn\<close>\<close>

text \<open>The arguments of one call of \<open>learn\<close>, in the order of the C++ parameter list.\<close>

record 'a etd_args =
  a_phi :: "'a list"
  a_r :: 'a
  a_phi_p :: "'a list"
  a_alpha :: 'a
  a_gamma :: 'a
  a_gamma_p :: 'a
  a_I :: 'a
  a_lambda :: 'a
  a_rho :: 'a

text \<open>The locals \<open>delta\<close>, \<open>M\<close> and \<open>S\<close>; \<open>F1\<close> is the member \<open>F\<close> after \<open>F = F + I\<close>.\<close>

definition ETD_delta :: "'a ETD \<Rightarrow> 'a etd_args \<Rightarrow> 'a::{zero,plus,minus,times}" where
  "ETD_delta s a =
     a_r a + a_gamma_p a * ETD_dot (etd_n s) (etd_theta s) (a_phi_p a)
       - ETD_dot (etd_n s) (etd_theta s) (a_phi a)"

definition ETD_M :: "'a etd_args \<Rightarrow> 'a \<Rightarrow> 'a::{one,plus,minus,times}" where
  "ETD_M a F1 = a_lambda a * a_I a + (1 - a_lambda a) * F1"

definition ETD_S :: "'a ETD \<Rightarrow> 'a etd_args \<Rightarrow> 'a \<Rightarrow> 'a::{zero,one,plus,minus,times}" where
  "ETD_S s a M =
     a_rho a * a_alpha a * M
       * (1 - a_rho a * a_gamma a * a_lambda a * ETD_dot (etd_n s) (a_phi a) (etd_e s))"

text \<open>
  One pass through the body of the loop at index \<open>i\<close>, on the triple of what the loop
  mutates: the arrays \<open>e\<close> and \<open>theta\<close> and the accumulator \<open>D_p\<close>.
\<close>

definition ETD_learn_body ::
  "'a etd_args \<Rightarrow> 'a \<Rightarrow> 'a \<Rightarrow> 'a \<Rightarrow> 'a \<Rightarrow> int \<Rightarrow> 'a list \<times> 'a list \<times> 'a
     \<Rightarrow> 'a list \<times> 'a list \<times> ('a::{plus,minus,times})" where
  "ETD_learn_body a delta M S D i st =
     (case st of (e, theta, D_p) \<Rightarrow>
        let e1 = e[nat i := a_rho a * a_gamma a * a_lambda a * e ! nat i + S * a_phi a ! nat i];
            delta_i = delta * e1 ! nat i
                        + D * (e1 ! nat i - a_rho a * a_alpha a * M * a_phi a ! nat i);
            theta1 = theta[nat i := theta ! nat i + delta_i];
            D_p1 = D_p + delta_i * a_phi_p a ! nat i
        in (e1, theta1, D_p1))"

function ETD_learn_loop ::
  "int \<Rightarrow> 'a etd_args \<Rightarrow> 'a \<Rightarrow> 'a \<Rightarrow> 'a \<Rightarrow> 'a \<Rightarrow> int \<Rightarrow> 'a list \<times> 'a list \<times> 'a
     \<Rightarrow> 'a list \<times> 'a list \<times> ('a::{plus,minus,times})" where
  "ETD_learn_loop n a delta M S D i st =
     (if i < n then ETD_learn_loop n a delta M S D (i + 1) (ETD_learn_body a delta M S D i st)
      else st)"
  by pat_completeness auto
termination
  by (relation "measure (\<lambda>(n, a, delta, M, S, D, i, st). nat (n - i))") auto

declare ETD_learn_loop.simps [simp del]

text \<open>
  \<open>learn\<close> reads and writes the cells \<open>0 .. n-1\<close> of \<open>theta\<close>, \<open>e\<close>, \<open>phi\<close> and \<open>phi_p\<close> and
  performs no check of its own. A call on an array with fewer than \<open>n\<close> cells has
  undefined behaviour: the model gives it the value \<open>Inl OutOfBounds\<close> and no state.
\<close>

definition ETD_learn :: "'a ETD \<Rightarrow> 'a etd_args \<Rightarrow> error + ('a::{zero,one,plus,minus,times}) ETD" where
  "ETD_learn s a =
     (if in_bounds (etd_n s) (etd_theta s) \<and> in_bounds (etd_n s) (etd_e s)
         \<and> in_bounds (etd_n s) (a_phi a) \<and> in_bounds (etd_n s) (a_phi_p a)
      then
        let F1 = etd_F s + a_I a;
            delta = ETD_delta s a;
            M = ETD_M a F1;
            S = ETD_S s a M
        in case ETD_learn_loop (etd_n s) a delta M S (etd_D s) 0 (etd_e s, etd_theta s, 0) of
             (e1, theta1, D_p) \<Rightarrow>
               Inr (s\<lparr>etd_theta := theta1, etd_e := e1, etd_D := D_p,
                      etd_F := F1 * (a_rho a * a_gamma_p a)\<rparr>)
      else Inl OutOfBounds)"

subsection \<open>\<open>ETD::predict\<close>\<close>

text \<open>\<open>predict\<close> is a non-const member: it returns its value together with the state.\<close>

definition ETD_predict :: "'a ETD \<Rightarrow> 'a list \<Rightarrow> error + ('a::{zero,plus,times}) \<times> 'a ETD" where
  "ETD_predict s fvec =
     (if in_bounds (etd_n s) (etd_theta s) \<and> in_bounds (etd_n s) fvec
      then Inr (ETD_dot (etd_n s) (etd_theta s) fvec, s)
      else Inl OutOfBounds)"

subsection \<open>Sequences of calls\<close>

text \<open>A sequence of \<open>learn\<close> calls on one object; it stops at the first call that fails.\<close>

fun ETD_run :: "'a ETD \<Rightarrow> 'a etd_args list \<Rightarrow> error + ('a::{zero,one,plus,minus,times}) ETD" where
  "ETD_run s [] = Inr s"
| "ETD_run s (a # as) = (case ETD_learn s a of Inl err \<Rightarrow> Inl err | Inr s1 \<Rightarrow> ETD_run s1 as)"

text \<open>The class invariant: \<open>theta\<close> and \<open>e\<close> are arrays of exactly \<open>n\<close> cells.\<close>

definition ETD_wf :: "'a ETD \<Rightarrow> bool" where
  "ETD_wf s = (0 \<le> etd_n s \<and> length (etd_theta s) = nat (etd_n s)
                 \<and> length (etd_e s) = nat (etd_n s))"

section \<open>TOETD.cpp\<close>

subsection \<open>\<open>TOETD::TOETD\<close>\<close>

text \<open>The loop \<open>for (int i=0; i<n; i++) theta[i]=e[i]=0;\<close>.\<close>

function TOETD_init_loop :: "int \<Rightarrow> int \<Rightarrow> 'a list \<times> 'a list \<Rightarrow> ('a::zero) list \<times> 'a list" where
  "TOETD_init_loop n i st =
     (if i < n
      then TOETD_init_loop n (i + 1)
             (case st of (theta, e) \<Rightarrow> let e1 = e[nat i := 0] in (theta[nat i := e1 ! nat i], e1))
      else st)"
  by pat_completeness auto
termination
  by (relation "measure (\<lambda>(n, i, st). nat (n - i))") auto

declare TOETD_init_loop.simps [simp del]

text \<open>The constructor has a second parameter \<open>I\<close>; its body does not mention it.\<close>

definition TOETD_new ::
  "int \<Rightarrow> 'a \<Rightarrow> (nat \<Rightarrow> 'a) \<Rightarrow> (nat \<Rightarrow> 'a) \<Rightarrow> error + ('a::zero) TOETD" where
  "TOETD_new nArg I junk_e junk_theta =
     (case new_array nArg junk_e of
        Inl err \<Rightarrow> Inl err
      | Inr e0 \<Rightarrow>
         (case new_array nArg junk_theta of
            Inl err \<Rightarrow> Inl err
          | Inr theta0 \<Rightarrow>
             (case TOETD_init_loop nArg 0 (theta0, e0) of
                (theta1, e1) \<Rightarrow>
                  Inr \<lparr>to_theta = theta1, to_e = e1, to_n = nArg,
                       to_F = 0, to_D = 0, to_gamma = 0\<rparr>)))"

subsection \<open>\<open>TOETD::dot\<close>\<close>

function TOETD_dot_loop :: "int \<Rightarrow> 'a list \<Rightarrow> 'a list \<Rightarrow> int \<Rightarrow> 'a \<Rightarrow> 'a::{plus,times}" where
  "TOETD_dot_loop n v1 v2 i sum0 =
     (if i < n then TOETD_dot_loop n v1 v2 (i + 1) (sum0 + v1 ! nat i * v2 ! nat i) else sum0)"
  by pat_completeness auto
termination
  by (relation "measure (\<lambda>(n, v1, v2, i, sum0). nat (n - i))") auto

declare TOETD_dot_loop.simps [simp del]

definition TOETD_dot :: "int \<Rightarrow> 'a list \<Rightarrow> 'a list \<Rightarrow> 'a::{zero,plus,times}" where
  "TOETD_dot n v1 v2 = TOETD_dot_loop n v1 v2 0 0"

subsection \<open>\<open>TOETD::learn\<close>\<close>

text \<open>The arguments of one call of \<open>learn\<close>, in the order of the C++ parameter list.\<close>

record 'a toetd_args =
  b_alpha :: 'a
  b_I :: 'a
  b_lambda :: 'a
  b_phi :: "'a list"
  b_rho :: 'a
  b_R :: 'a
  b_phiPrime :: "'a list"
  b_gammaPrime :: 'a

definition TOETD_learn_body ::
  "'a toetd_args \<Rightarrow> 'a \<Rightarrow> 'a \<Rightarrow> 'a \<Rightarrow> 'a \<Rightarrow> 'a \<Rightarrow> int \<Rightarrow> 'a list \<times> 'a list \<times> 'a
     \<Rightarrow> 'a list \<times> 'a list \<times> ('a::{plus,minus,times})" where
  "TOETD_learn_body b gamma delta M S D i st =
     (case st of (e, theta, newD) \<Rightarrow>
        let e1 = e[nat i := b_rho b * gamma * b_lambda b * e ! nat i + S * b_phi b ! nat i];
            Delta_i = delta * e1 ! nat i
                        + D * (e1 ! nat i - b_rho b * b_alpha b * M * b_phi b ! nat i);
            theta1 = theta[nat i := theta ! nat i + Delta_i];
            newD1 = newD + Delta_i * b_phiPrime b ! nat i
        in (e1, theta1, newD1))"

function TOETD_learn_loop ::
  "int \<Rightarrow> 'a toetd_args \<Rightarrow> 'a \<Rightarrow> 'a \<Rightarrow> 'a \<Rightarrow> 'a \<Rightarrow> 'a \<Rightarrow> int \<Rightarrow> 'a list \<times> 'a list \<times> 'a
     \<Rightarrow> 'a list \<times> 'a list \<times> ('a::{plus,minus,times})" where
  "TOETD_learn_loop n b gamma delta M S D i st =
     (if i < n
      then TOETD_learn_loop n b gamma delta M S D (i + 1) (TOETD_learn_body b gamma delta M S D i st)
      else st)"
  by pat_completeness auto
termination
  by (relation "measure (\<lambda>(n, b, gamma, delta, M, S, D, i, st). nat (n - i))") auto

declare TOETD_learn_loop.simps [simp del]

definition TOETD_learn ::
  "'a TOETD \<Rightarrow> 'a toetd_args \<Rightarrow> error + ('a::{zero,one,plus,minus,times}) TOETD" where
  "TOETD_learn s b =
     (if in_bounds (to_n s) (to_theta s) \<and> in_bounds (to_n s) (to_e s)
         \<and> in_bounds (to_n s) (b_phi b) \<and> in_bounds (to_n s) (b_phiPrime b)
      then
        let delta = b_R b + b_gammaPrime b * TOETD_dot (to_n s) (to_theta s) (b_phiPrime b)
                      - TOETD_dot (to_n s) (to_theta s) (b_phi b);
            F1 = to_F s + b_I b;
            M = b_lambda b * b_I b + (1 - b_lambda b) * F1;
            S = b_rho b * b_alpha b * M
                  * (1 - b_rho b * to_gamma s * b_lambda b * TOETD_dot (to_n s) (b_phi b) (to_e s))
        in case TOETD_learn_loop (to_n s) b (to_gamma s) delta M S (to_D s) 0
                  (to_e s, to_theta s, 0) of
             (e1, theta1, newD) \<Rightarrow>
               Inr (s\<lparr>to_theta := theta1, to_e := e1, to_D := newD,
                      to_F := F1 * (b_rho b * b_gammaPrime b), to_gamma := b_gammaPrime b\<rparr>)
      else Inl OutOfBounds)"

subsection \<open>\<open>TOETD::predict\<close>\<close>

definition TOETD_predict :: "'a TOETD \<Rightarrow> 'a list \<Rightarrow> error + ('a::{zero,plus,times}) \<times> 'a TOETD" where
  "TOETD_predict s phi =
     (if in_bounds (to_n s) (to_theta s) \<and> in_bounds (to_n s) phi
      then Inr (TOETD_dot (to_n s) (to_theta s) phi, s)
      else Inl OutOfBounds)"

subsection \<open>Sequences of calls\<close>

text \<open>
  A client of a \<open>TOETD\<close> object calls \<open>learn\<close> and \<open>predict\<close> in any order; what it
  observes is the list of values \<open>predict\<close> returned. A failing call ends the sequence.
\<close>

datatype 'a toetd_call = Learn "'a toetd_args" | Predict "'a list"

fun TOETD_calls ::
  "'a TOETD \<Rightarrow> 'a toetd_call list \<Rightarrow> error + ('a::{zero,one,plus,minus,times}) list \<times> 'a TOETD" where
  "TOETD_calls s [] = Inr ([], s)"
| "TOETD_calls s (Learn b # cs) =
     (case TOETD_learn s b of Inl err \<Rightarrow> Inl err | Inr s1 \<Rightarrow> TOETD_calls s1 cs)"
| "TOETD_calls s (Predict phi # cs) =
     (case TOETD_predict s phi of Inl err \<Rightarrow> Inl err
      | Inr (v, s1) \<Rightarrow>
          (case TOETD_calls s1 cs of Inl err \<Rightarrow> Inl err | Inr (vs, s2) \<Rightarrow> Inr (v # vs, s2)))"

definition TOETD_session ::
  "int \<Rightarrow> 'a \<Rightarrow> (nat \<Rightarrow> 'a) \<Rightarrow> (nat \<Rightarrow> 'a) \<Rightarrow> 'a toetd_call list
     \<Rightarrow> error + ('a::{zero,one,plus,minus,times}) list \<times> 'a TOETD" where
  "TOETD_session nArg I junk_e junk_theta cs =
     (case TOETD_new nArg I junk_e junk_theta of Inl err \<Rightarrow> Inl err | Inr s \<Rightarrow> TOETD_calls s cs)"

section \<open>The two classes side by side\<close>

text \<open>
  The same stream of transitions fed to both classes. A transition is given as the
  arguments of \<open>TOETD::learn\<close>, which has no \<open>gamma\<close>; the call of \<open>ETD::learn\<close> gets its
  \<open>gamma\<close> from the caller, here \<open>g\<close>. The traces list the state after each call.
\<close>

definition etd_args_of :: "'a \<Rightarrow> 'a toetd_args \<Rightarrow> 'a etd_args" where
  "etd_args_of g b =
     \<lparr>a_phi = b_phi b, a_r = b_R b, a_phi_p = b_phiPrime b, a_alpha = b_alpha b, a_gamma = g,
      a_gamma_p = b_gammaPrime b, a_I = b_I b, a_lambda = b_lambda b, a_rho = b_rho b\<rparr>"

fun ETD_trace ::
  "'a \<Rightarrow> 'a ETD \<Rightarrow> 'a toetd_args list \<Rightarrow> (error + ('a::{zero,one,plus,minus,times}) ETD) list" where
  "ETD_trace g s [] = []"
| "ETD_trace g s (b # bs) =
     (case ETD_learn s (etd_args_of g b) of
        Inl err \<Rightarrow> [Inl err]
      | Inr s1 \<Rightarrow> Inr s1 # ETD_trace (b_gammaPrime b) s1 bs)"

fun TOETD_trace ::
  "'a TOETD \<Rightarrow> 'a toetd_args list \<Rightarrow> (error + ('a::{zero,one,plus,minus,times}) TOETD) list" where
  "TOETD_trace s [] = []"
| "TOETD_trace s (b # bs) =
     (case TOETD_learn s b of
        Inl err \<Rightarrow> [Inl err]
      | Inr s1 \<Rightarrow> Inr s1 # TOETD_trace s1 bs)"

text \<open>The members the two classes share: \<open>TOETD\<close> without its \<open>gamma\<close>.\<close>

definition etd_of :: "'a TOETD \<Rightarrow> 'a ETD" where
  "etd_of s = \<lparr>etd_n = to_n s, etd_theta = to_theta s, etd_e = to_e s,
               etd_F = to_F s, etd_D = to_D s\<rparr>"

section \<open>The update as the specification words it\<close>

text \<open>
  The algorithm of section 4.2 of the specification, written from its sentences over a
  commutative ring: vectors are updated as a whole, component by component, sums are
  sums over the index range, and products are associated as the sentences write them.
\<close>

definition spec_dot :: "nat \<Rightarrow> 'a list \<Rightarrow> 'a list \<Rightarrow> 'a::comm_ring_1" where
  "spec_dot n v1 v2 = (\<Sum>i<n. v1 ! i * v2 ! i)"

definition spec_followon1 :: "'a ETD \<Rightarrow> 'a etd_args \<Rightarrow> 'a::comm_ring_1" where
  "spec_followon1 s a = etd_F s + a_I a"

definition spec_delta :: "'a ETD \<Rightarrow> 'a etd_args \<Rightarrow> 'a::comm_ring_1" where
  "spec_delta s a =
     a_r a + a_gamma_p a * spec_dot (nat (etd_n s)) (etd_theta s) (a_phi_p a)
       - spec_dot (nat (etd_n s)) (etd_theta s) (a_phi a)"

definition spec_M :: "'a ETD \<Rightarrow> 'a etd_args \<Rightarrow> 'a::comm_ring_1" where
  "spec_M s a = a_lambda a * a_I a + (1 - a_lambda a) * spec_followon1 s a"

definition spec_S :: "'a ETD \<Rightarrow> 'a etd_args \<Rightarrow> 'a::comm_ring_1" where
  "spec_S s a =
     a_rho a * a_alpha a * spec_M s a
       * (1 - a_rho a * a_gamma a * a_lambda a * spec_dot (nat (etd_n s)) (a_phi a) (etd_e s))"

definition spec_trace :: "'a ETD \<Rightarrow> 'a etd_args \<Rightarrow> nat \<Rightarrow> 'a::comm_ring_1" where
  "spec_trace s a i =
     a_rho a * a_gamma a * a_lambda a * etd_e s ! i + spec_S s a * a_phi a ! i"

definition spec_delta_i :: "'a ETD \<Rightarrow> 'a etd_args \<Rightarrow> nat \<Rightarrow> 'a::comm_ring_1" where
  "spec_delta_i s a i =
     spec_delta s a * spec_trace s a i
       + etd_D s * (spec_trace s a i - a_rho a * a_alpha a * spec_M s a * a_phi a ! i)"

definition spec_learn :: "'a ETD \<Rightarrow> 'a etd_args \<Rightarrow> ('a::comm_ring_1) ETD" where
  "spec_learn s a =
     \<lparr>etd_n = etd_n s,
      etd_theta = map (\<lambda>i. etd_theta s ! i + spec_delta_i s a i) [0..<nat (etd_n s)],
      etd_e = map (spec_trace s a) [0..<nat (etd_n s)],
      etd_F = spec_followon1 s a * a_rho a * a_gamma_p a,
      etd_D = (\<Sum>i<nat (etd_n s). spec_delta_i s a i * a_phi_p a ! i)\<rparr>"

text \<open>
  What the body of the loop of \<open>learn\<close> computes at index \<open>j\<close>, as a function of the
  array \<open>e\<close> before the loop: the new \<open>e[j]\<close> and the local \<open>delta_i\<close>.
\<close>

definition e_at :: "'a etd_args \<Rightarrow> 'a \<Rightarrow> 'a list \<Rightarrow> nat \<Rightarrow> 'a::{plus,times}" where
  "e_at a S e j = a_rho a * a_gamma a * a_lambda a * e ! j + S * a_phi a ! j"

definition delta_i_at ::
  "'a etd_args \<Rightarrow> 'a \<Rightarrow> 'a \<Rightarrow> 'a \<Rightarrow> 'a \<Rightarrow> 'a list \<Rightarrow> nat \<Rightarrow> 'a::{plus,minus,times}" where
  "delta_i_at a delta M S D e j =
     delta * e_at a S e j + D * (e_at a S e j - a_rho a * a_alpha a * M * a_phi a ! j)"

text \<open>The state of a freshly constructed object, as section 4.1 describes it.\<close>

definition ETD_fresh :: "int \<Rightarrow> ('a::zero) ETD" where
  "ETD_fresh n = \<lparr>etd_n = n, etd_theta = replicate (nat n) 0, etd_e = replicate (nat n) 0,
                  etd_F = 0, etd_D = 0\<rparr>"


definition TOETD_fresh :: "int \<Rightarrow> ('a::zero) TOETD" where
  "TOETD_fresh n = \<lparr>to_theta = replicate (nat n) 0, to_e = replicate (nat n) 0, to_n = n,
                    to_F = 0, to_D = 0, to_gamma = 0\<rparr>"

text \<open>Construction followed by a sequence of \<open>learn\<close> calls.\<close>

definition ETD_session ::
  "int \<Rightarrow> (nat \<Rightarrow> 'a) \<Rightarrow> (nat \<Rightarrow> 'a) \<Rightarrow> 'a etd_args list
     \<Rightarrow> error + ('a::{zero,one,plus,minus,times}) ETD" where
  "ETD_session n junk_e junk_theta as =
     (case ETD_new n junk_e junk_theta of Inl err \<Rightarrow> Inl err | Inr s \<Rightarrow> ETD_run s as)"

section \<open>Example inputs\<close>

text \<open>The scenario of section 8 of the specification.\<close>

definition scenario_args :: "real etd_args" where
  "scenario_args =
     \<lparr>a_phi = [1, 0], a_r = 1, a_phi_p = [0, 1], a_alpha = 1 / 10, a_gamma = 9 / 10,
      a_gamma_p = 9 / 10, a_I = 1, a_lambda = 0, a_rho = 1\<rparr>"


text \<open>
  Two calls on an object of dimension \<open>1\<close>: an ordinary transition, then a call with the
  all-zero \<open>phi\<close>, reward \<open>0\<close> and \<open>gamma_p = 0\<close>.
\<close>

definition warmup_args :: "real etd_args" where
  "warmup_args =
     \<lparr>a_phi = [1], a_r = 1, a_phi_p = [1], a_alpha = 1, a_gamma = 1,
      a_gamma_p = 1, a_I = 1, a_lambda = 1, a_rho = 1\<rparr>"

definition zero_phi_args :: "real etd_args" where
  "zero_phi_args =
     \<lparr>a_phi = [0], a_r = 0, a_phi_p = [0], a_alpha = 1, a_gamma = 1,
      a_gamma_p = 0, a_I = 1, a_lambda = 1, a_rho = 1\<rparr>"

text \<open>A call whose vectors have two components, for an object of dimension \<open>1\<close>.\<close>

definition long_args :: "real etd_args" where
  "long_args =
     \<lparr>a_phi = [1, 5], a_r = 1, a_phi_p = [0, 7], a_alpha = 1, a_gamma = 0,
      a_gamma_p = 0, a_I = 1, a_lambda = 0, a_rho = 1\<rparr>"

text \<open>The states after \<open>warmup_args\<close> and after \<open>zero_phi_args\<close> on a fresh object.\<close>

definition warm_state :: "real ETD" where
  "warm_state = \<lparr>etd_n = 1, etd_theta = [1], etd_e = [1], etd_F = 1, etd_D = 1\<rparr>"

definition cooled_state :: "real ETD" where
  "cooled_state = \<lparr>etd_n = 1, etd_theta = [2], etd_e = [1], etd_F = 0, etd_D = 0\<rparr>"

text \<open>A state of dimension \<open>2\<close> with all members non-zero.\<close>

definition busy_state :: "real ETD" where
  "busy_state = \<lparr>etd_n = 2, etd_theta = [1, 2], etd_e = [3, 4], etd_F = 5, etd_D = 6\<rparr>"

definition toetd_example :: "real toetd_args" where
  "toetd_example =
     \<lparr>b_alpha = 1 / 10, b_I = 1, b_lambda = 1 / 2, b_phi = [1, 0], b_rho = 1, b_R = 1,
      b_phiPrime = [0, 1], b_gammaPrime = 9 / 10\<rparr>"

section \<open>The values of \<open>double\<close>\<close>

text \<open>
  The zero laws \<open>0 * x = 0\<close> and \<open>x + 0 = x\<close> hold for a \<open>double\<close> only when \<open>x\<close> is
  finite: \<open>0 * inf\<close> is NaN, and a product of two finite doubles can be \<open>inf\<close>. The
  type \<open>dbl\<close> has what is needed to see this: a finite value, the two infinities and
  NaN. A result beyond the largest finite double \<open>(2^53 - 1) * 2^971\<close> is an infinity.
  Rounding to 53 bits is not part of \<open>dbl\<close>, and \<open>-0\<close> and \<open>+0\<close> are one value, as are
  all NaNs.
\<close>

datatype dbl = Num real | PosInf | NegInf | NaN

definition dbl_max :: real where
  "dbl_max = (2 ^ 53 - 1) * 2 ^ 971"

definition ovf :: "real \<Rightarrow> dbl" where
  "ovf r = (if dbl_max < r then PosInf else if r < - dbl_max then NegInf else Num r)"

fun dbl_neg :: "dbl \<Rightarrow> dbl" where
  "dbl_neg (Num a) = Num (- a)"
| "dbl_neg PosInf = NegInf"
| "dbl_neg NegInf = PosInf"
| "dbl_neg NaN = NaN"

fun dbl_add :: "dbl \<Rightarrow> dbl \<Rightarrow> dbl" where
  "dbl_add NaN y = NaN"
| "dbl_add x NaN = NaN"
| "dbl_add (Num a) (Num b) = ovf (a + b)"
| "dbl_add PosInf NegInf = NaN"
| "dbl_add NegInf PosInf = NaN"
| "dbl_add PosInf y = PosInf"
| "dbl_add x PosInf = PosInf"
| "dbl_add NegInf y = NegInf"
| "dbl_add x NegInf = NegInf"

fun dbl_sgn :: "dbl \<Rightarrow> real" where
  "dbl_sgn (Num a) = sgn a"
| "dbl_sgn PosInf = 1"
| "dbl_sgn NegInf = - 1"
| "dbl_sgn NaN = 0"

fun dbl_mul :: "dbl \<Rightarrow> dbl \<Rightarrow> dbl" where
  "dbl_mul NaN y = NaN"
| "dbl_mul x NaN = NaN"
| "dbl_mul (Num a) (Num b) = ovf (a * b)"
| "dbl_mul x y =
     (if dbl_sgn x * dbl_sgn y = 0 then NaN
      else if 0 < dbl_sgn x * dbl_sgn y then PosInf else NegInf)"

instantiation dbl :: "{zero,one,plus,minus,times}"
begin

definition "(0 :: dbl) = Num 0"
definition "(1 :: dbl) = Num 1"
definition "(x :: dbl) + y = dbl_add x y"
definition "(x :: dbl) - y = dbl_add x (dbl_neg y)"
definition "(x :: dbl) * y = dbl_mul x y"

instance ..

end

text \<open>A finite double: a number within the range.\<close>

fun dbl_finite :: "dbl \<Rightarrow> bool" where
  "dbl_finite (Num a) = (- dbl_max \<le> a \<and> a \<le> dbl_max)"
| "dbl_finite x = False"

text \<open>
  The laws of floating-point arithmetic that the proofs about zero use, for a predicate
  \<open>fin\<close> that says which values are finite. IEEE doubles satisfy them, with the two zeros
  taken as one value, rounding included: each of these operations is exact.
\<close>

definition float_laws :: "('a::{zero,one,plus,minus,times} \<Rightarrow> bool) \<Rightarrow> bool" where
  "float_laws fin =
     (fin 0 \<and> fin 1
      \<and> (\<forall>x. fin x \<longrightarrow> 0 * x = 0 \<and> x * 0 = 0 \<and> x * 1 = x
                         \<and> x + 0 = x \<and> 0 + x = x \<and> x - 0 = x))"

text \<open>The first \<open>n\<close> cells of an array are finite.\<close>

definition fin_vec :: "('a \<Rightarrow> bool) \<Rightarrow> int \<Rightarrow> 'a list \<Rightarrow> bool" where
  "fin_vec fin n v = list_all fin (take (nat n) v)"

text \<open>The members of the object and the arguments of a call of \<open>learn\<close> are finite.\<close>

definition ETD_finite_inputs :: "('a \<Rightarrow> bool) \<Rightarrow> 'a ETD \<Rightarrow> 'a etd_args \<Rightarrow> bool" where
  "ETD_finite_inputs fin s a =
     (fin_vec fin (etd_n s) (etd_theta s) \<and> fin_vec fin (etd_n s) (etd_e s)
      \<and> fin (etd_F s) \<and> fin (etd_D s)
      \<and> fin_vec fin (etd_n s) (a_phi a) \<and> fin (a_r a) \<and> fin_vec fin (etd_n s) (a_phi_p a)
      \<and> fin (a_alpha a) \<and> fin (a_gamma a) \<and> fin (a_gamma_p a) \<and> fin (a_I a)
      \<and> fin (a_lambda a) \<and> fin (a_rho a))"

text \<open>
  Inputs over \<open>dbl\<close>. \<open>big\<close> is \<open>2^1000\<close>, a finite double whose square is not finite.
\<close>

definition big :: dbl where
  "big = Num (2 ^ 1000)"

definition grow_args :: "dbl etd_args" where
  "grow_args =
     \<lparr>a_phi = [1], a_r = 0, a_phi_p = [0], a_alpha = big, a_gamma = 0,
      a_gamma_p = 0, a_I = 1, a_lambda = 0, a_rho = 1\<rparr>"

definition grown_state :: "dbl ETD" where
  "grown_state = \<lparr>etd_n = 1, etd_theta = [0], etd_e = [big], etd_F = 0, etd_D = 0\<rparr>"

definition rho0_big_args :: "dbl etd_args" where
  "rho0_big_args =
     \<lparr>a_phi = [big], a_r = 0, a_phi_p = [0], a_alpha = 1, a_gamma = 1,
      a_gamma_p = 0, a_I = 1, a_lambda = 1, a_rho = 0\<rparr>"

definition dbl_state :: "dbl ETD" where
  "dbl_state = \<lparr>etd_n = 2, etd_theta = [Num 1, Num 2], etd_e = [Num 3, Num 4],
                 etd_F = Num 5, etd_D = Num 6\<rparr>"

definition rho0_dbl_args :: "dbl etd_args" where
  "rho0_dbl_args =
     \<lparr>a_phi = [Num 1, Num 2], a_r = Num 3, a_phi_p = [Num 4, Num 5], a_alpha = Num (1 / 2),
      a_gamma = Num (1 / 2), a_gamma_p = Num (1 / 2), a_I = Num 1, a_lambda = Num (1 / 2),
      a_rho = 0\<rparr>"

definition zero_phi_dbl_args :: "dbl etd_args" where
  "zero_phi_dbl_args =
     \<lparr>a_phi = [0, 0], a_r = 0, a_phi_p = [Num 4, Num 5], a_alpha = Num (1 / 2),
      a_gamma = Num (1 / 2), a_gamma_p = 0, a_I = Num 1, a_lambda = Num (1 / 2),
      a_rho = Num 2\<rparr>"

section \<open>The loops in closed form\<close>

lemma ETD_init_loop_eq:
  "0 \<le> i \<Longrightarrow> i \<le> n \<Longrightarrow> length e = nat n \<Longrightarrow> length theta = nat n \<Longrightarrow>
   ETD_init_loop n i (e, theta) =
     (take (nat i) e @ replicate (nat (n - i)) 0, take (nat i) theta @ replicate (nat (n - i)) 0)"
proof (induction n i "(e, theta)" arbitrary: e theta rule: ETD_init_loop.induct)
  case (1 n i)
  show ?case
  proof (cases "i < n")
    case True
    have k: "nat (i + 1) = Suc (nat i)" "nat (n - i) = Suc (nat (n - (i + 1)))" "nat i < nat n"
      using True "1.prems" by auto
    have "ETD_init_loop n i (e, theta) = ETD_init_loop n (i + 1) (e[nat i := 0], theta[nat i := 0])"
      using True by (subst ETD_init_loop.simps) simp
    also have "\<dots> = (take (nat (i + 1)) (e[nat i := 0]) @ replicate (nat (n - (i + 1))) 0,
                     take (nat (i + 1)) (theta[nat i := 0]) @ replicate (nat (n - (i + 1))) 0)"
      using True "1.prems" by (intro "1.hyps") auto
    also have "\<dots> = (take (nat i) e @ replicate (nat (n - i)) 0,
                     take (nat i) theta @ replicate (nat (n - i)) 0)"
      using k "1.prems" by (simp add: take_Suc_conv_app_nth)
    finally show ?thesis .
  next
    case False
    then show ?thesis using "1.prems" by (subst ETD_init_loop.simps) simp
  qed
qed

lemma ETD_new_fresh: "0 \<le> n \<Longrightarrow> ETD_new n junk_e junk_theta = Inr (ETD_fresh n)"
  by (simp add: ETD_new_def new_array_def ETD_init_loop_eq ETD_fresh_def)

lemma ETD_new_neg: "n < 0 \<Longrightarrow> ETD_new n junk_e junk_theta = Inl BadArrayNewLength"
  by (simp add: ETD_new_def new_array_def)

lemma ETD_dot_loop_sum:
  fixes ret :: "'a::comm_ring_1"
  shows "0 \<le> i \<Longrightarrow> ETD_dot_loop n v1 v2 i ret = ret + (\<Sum>k = nat i..<nat n. v1 ! k * v2 ! k)"
proof (induction n v1 v2 i ret rule: ETD_dot_loop.induct)
  case (1 n v1 v2 i ret)
  show ?case
  proof (cases "i < n")
    case True
    have k: "nat (i + 1) = Suc (nat i)" "nat i < nat n"
      using True "1.prems" by auto
    have "ETD_dot_loop n v1 v2 i ret = ETD_dot_loop n v1 v2 (i + 1) (ret + v1 ! nat i * v2 ! nat i)"
      using True by (subst ETD_dot_loop.simps) simp
    also have "\<dots> = ret + v1 ! nat i * v2 ! nat i + (\<Sum>k = nat (i + 1)..<nat n. v1 ! k * v2 ! k)"
      using True "1.prems" by (intro "1.IH") auto
    also have "\<dots> = ret + (\<Sum>k = nat i..<nat n. v1 ! k * v2 ! k)"
      using k by (simp add: sum.atLeast_Suc_lessThan add.assoc)
    finally show ?thesis .
  next
    case False
    then show ?thesis using "1.prems" by (subst ETD_dot_loop.simps) simp
  qed
qed

lemma ETD_dot_spec: "ETD_dot n v1 v2 = spec_dot (nat n) v1 v2"
  by (simp add: ETD_dot_def spec_dot_def ETD_dot_loop_sum lessThan_atLeast0)

lemma ETD_learn_body_eq:
  "nat i < length e \<Longrightarrow>
   ETD_learn_body a delta M S D i (e, theta, Dp) =
     (e[nat i := e_at a S e (nat i)],
      theta[nat i := theta ! nat i + delta_i_at a delta M S D e (nat i)],
      Dp + delta_i_at a delta M S D e (nat i) * a_phi_p a ! nat i)"
  by (simp add: ETD_learn_body_def Let_def e_at_def delta_i_at_def)

lemma ETD_learn_loop_eq:
  fixes Dp :: "'a::comm_ring_1"
  shows "0 \<le> i \<Longrightarrow> nat n \<le> length e \<Longrightarrow> nat n \<le> length theta \<Longrightarrow>
   ETD_learn_loop n a delta M S D i (e, theta, Dp) =
     (map (\<lambda>j. if nat i \<le> j \<and> j < nat n then e_at a S e j else e ! j) [0..<length e],
      map (\<lambda>j. if nat i \<le> j \<and> j < nat n then theta ! j + delta_i_at a delta M S D e j
                else theta ! j) [0..<length theta],
      Dp + (\<Sum>j = nat i..<nat n. delta_i_at a delta M S D e j * a_phi_p a ! j))"
proof (induction n a delta M S D i "(e, theta, Dp)" arbitrary: e theta Dp
       rule: ETD_learn_loop.induct)
  case (1 n a delta M S D i)
  show ?case
  proof (cases "i < n")
    case True
    define k where "k = nat i"
    have k: "nat (i + 1) = Suc k" "k < nat n" "k < length e" "k < length theta" "nat i = k"
      using True "1.prems" by (auto simp: k_def)
    define e1 where "e1 = e[k := e_at a S e k]"
    define theta1 where "theta1 = theta[k := theta ! k + delta_i_at a delta M S D e k]"
    define Dp1 where "Dp1 = Dp + delta_i_at a delta M S D e k * a_phi_p a ! k"
    have later: "e_at a S e1 j = e_at a S e j" "delta_i_at a delta M S D e1 j = delta_i_at a delta M S D e j"
      if "Suc k \<le> j" for j
      using that by (simp_all add: e_at_def delta_i_at_def e1_def)
    have "ETD_learn_loop n a delta M S D i (e, theta, Dp)
            = ETD_learn_loop n a delta M S D (i + 1) (e1, theta1, Dp1)"
      using True k by (subst ETD_learn_loop.simps) (simp add: ETD_learn_body_eq e1_def theta1_def Dp1_def)
    also have "\<dots> =
       (map (\<lambda>j. if nat (i + 1) \<le> j \<and> j < nat n then e_at a S e1 j else e1 ! j) [0..<length e1],
        map (\<lambda>j. if nat (i + 1) \<le> j \<and> j < nat n then theta1 ! j + delta_i_at a delta M S D e1 j
                  else theta1 ! j) [0..<length theta1],
        Dp1 + (\<Sum>j = nat (i + 1)..<nat n. delta_i_at a delta M S D e1 j * a_phi_p a ! j))"
      using True "1.prems" k
      by (intro "1.hyps") (simp_all add: ETD_learn_body_eq e1_def theta1_def Dp1_def)
    also have "\<dots> =
       (map (\<lambda>j. if nat i \<le> j \<and> j < nat n then e_at a S e j else e ! j) [0..<length e],
        map (\<lambda>j. if nat i \<le> j \<and> j < nat n then theta ! j + delta_i_at a delta M S D e j
                  else theta ! j) [0..<length theta],
        Dp + (\<Sum>j = nat i..<nat n. delta_i_at a delta M S D e j * a_phi_p a ! j))"
    proof -
      have len: "length e1 = length e" "length theta1 = length theta"
        by (simp_all add: e1_def theta1_def)
      have nth1: "e1 ! j = (if j = k then e_at a S e k else e ! j)" if "j < length e" for j
        using that by (simp add: e1_def nth_list_update)
      have nth2: "theta1 ! j = (if j = k then theta ! k + delta_i_at a delta M S D e k else theta ! j)"
        if "j < length theta" for j
        using that by (simp add: theta1_def nth_list_update)
      have ik: "nat (i + 1) = Suc k" "nat i = k" using k by simp_all
      have A: "map (\<lambda>j. if nat (i + 1) \<le> j \<and> j < nat n then e_at a S e1 j else e1 ! j) [0..<length e1]
             = map (\<lambda>j. if nat i \<le> j \<and> j < nat n then e_at a S e j else e ! j) [0..<length e]"
        unfolding ik len using k(2,3) by (intro nth_equalityI) (auto simp: later nth1)
      have B: "map (\<lambda>j. if nat (i + 1) \<le> j \<and> j < nat n then theta1 ! j + delta_i_at a delta M S D e1 j
                  else theta1 ! j) [0..<length theta1]
             = map (\<lambda>j. if nat i \<le> j \<and> j < nat n then theta ! j + delta_i_at a delta M S D e j
                  else theta ! j) [0..<length theta]"
        unfolding ik len using k(2,3,4) by (intro nth_equalityI) (auto simp: later nth2)
      have "(\<Sum>j = nat (i + 1)..<nat n. delta_i_at a delta M S D e1 j * a_phi_p a ! j)
          = (\<Sum>j = Suc k..<nat n. delta_i_at a delta M S D e j * a_phi_p a ! j)"
        using k by (intro sum.cong) (simp_all add: later)
      then have C: "Dp1 + (\<Sum>j = nat (i + 1)..<nat n. delta_i_at a delta M S D e1 j * a_phi_p a ! j)
          = Dp + (\<Sum>j = nat i..<nat n. delta_i_at a delta M S D e j * a_phi_p a ! j)"
        using k by (simp add: Dp1_def sum.atLeast_Suc_lessThan add.assoc)
      show ?thesis by (simp only: A B C)
    qed
    finally show ?thesis .
  next
    case False
    then have "nat n \<le> nat i" using "1.prems" by simp
    then show ?thesis using False
      by (subst ETD_learn_loop.simps) (auto intro!: nth_equalityI)
  qed
qed


lemma ETD_learn_in_bounds:
  fixes s :: "('a::comm_ring_1) ETD"
  assumes "in_bounds (etd_n s) (etd_theta s)" "in_bounds (etd_n s) (etd_e s)"
    "in_bounds (etd_n s) (a_phi a)" "in_bounds (etd_n s) (a_phi_p a)"
  shows "ETD_learn s a =
    Inr (s\<lparr>etd_theta := map (\<lambda>j. if j < nat (etd_n s) then etd_theta s ! j + spec_delta_i s a j
                                   else etd_theta s ! j) [0..<length (etd_theta s)],
           etd_e := map (\<lambda>j. if j < nat (etd_n s) then spec_trace s a j else etd_e s ! j)
                      [0..<length (etd_e s)],
           etd_D := (\<Sum>j<nat (etd_n s). spec_delta_i s a j * a_phi_p a ! j),
           etd_F := spec_followon1 s a * a_rho a * a_gamma_p a\<rparr>)"
proof -
  have d: "ETD_delta s a = spec_delta s a"
    by (simp add: ETD_delta_def spec_delta_def ETD_dot_spec)
  have m: "ETD_M a (etd_F s + a_I a) = spec_M s a"
    by (simp add: ETD_M_def spec_M_def spec_followon1_def)
  have S: "ETD_S s a (spec_M s a) = spec_S s a"
    by (simp add: ETD_S_def spec_S_def ETD_dot_spec)
  have t: "e_at a (spec_S s a) (etd_e s) j = spec_trace s a j" for j
    by (simp add: e_at_def spec_trace_def)
  have di: "delta_i_at a (spec_delta s a) (spec_M s a) (spec_S s a) (etd_D s) (etd_e s) j
              = spec_delta_i s a j" for j
    by (simp add: delta_i_at_def spec_delta_i_def t)
  show ?thesis
    using assms
    by (simp add: ETD_learn_def Let_def d m S ETD_learn_loop_eq in_bounds_def t di
          lessThan_atLeast0 spec_followon1_def mult.assoc)
qed



lemma TOETD_init_loop_eq:
  "0 \<le> i \<Longrightarrow> i \<le> n \<Longrightarrow> length e = nat n \<Longrightarrow> length theta = nat n \<Longrightarrow>
   TOETD_init_loop n i (theta, e) =
     (take (nat i) theta @ replicate (nat (n - i)) 0, take (nat i) e @ replicate (nat (n - i)) 0)"
proof (induction n i "(theta, e)" arbitrary: e theta rule: TOETD_init_loop.induct)
  case (1 n i)
  show ?case
  proof (cases "i < n")
    case True
    have k: "nat (i + 1) = Suc (nat i)" "nat (n - i) = Suc (nat (n - (i + 1)))" "nat i < nat n"
      using True "1.prems" by auto
    have "TOETD_init_loop n i (theta, e) = TOETD_init_loop n (i + 1) (theta[nat i := 0], e[nat i := 0])"
      using True k "1.prems" by (subst TOETD_init_loop.simps) (simp add: Let_def)
    also have "\<dots> = (take (nat (i + 1)) (theta[nat i := 0]) @ replicate (nat (n - (i + 1))) 0,
                     take (nat (i + 1)) (e[nat i := 0]) @ replicate (nat (n - (i + 1))) 0)"
      using True k "1.prems" by (intro "1.hyps") (auto simp: Let_def)
    also have "\<dots> = (take (nat i) theta @ replicate (nat (n - i)) 0,
                     take (nat i) e @ replicate (nat (n - i)) 0)"
      using k "1.prems" by (simp add: take_Suc_conv_app_nth)
    finally show ?thesis .
  next
    case False
    then show ?thesis using "1.prems" by (subst TOETD_init_loop.simps) simp
  qed
qed

lemma TOETD_new_fresh: "0 \<le> n \<Longrightarrow> TOETD_new n I junk_e junk_theta = Inr (TOETD_fresh n)"
  by (simp add: TOETD_new_def new_array_def TOETD_init_loop_eq TOETD_fresh_def)

lemma TOETD_new_neg: "n < 0 \<Longrightarrow> TOETD_new n I junk_e junk_theta = Inl BadArrayNewLength"
  by (simp add: TOETD_new_def new_array_def)

lemma TOETD_dot_loop_ETD: "TOETD_dot_loop n v1 v2 i acc = ETD_dot_loop n v1 v2 i acc"
proof (induction n v1 v2 i acc rule: ETD_dot_loop.induct)
  case (1 n v1 v2 i ret)
  show ?case
    by (subst TOETD_dot_loop.simps, subst ETD_dot_loop.simps) (simp add: "1.IH")
qed

lemma TOETD_dot_ETD: "TOETD_dot n v1 v2 = ETD_dot n v1 v2"
  by (simp add: TOETD_dot_def ETD_dot_def TOETD_dot_loop_ETD)

lemma TOETD_learn_body_ETD:
  "TOETD_learn_body b g delta M S D i st = ETD_learn_body (etd_args_of g b) delta M S D i st"
  by (simp add: TOETD_learn_body_def ETD_learn_body_def etd_args_of_def)

lemma TOETD_learn_loop_ETD:
  "TOETD_learn_loop n b g delta M S D i st = ETD_learn_loop n (etd_args_of g b) delta M S D i st"
proof (induction n "etd_args_of g b" delta M S D i st rule: ETD_learn_loop.induct)
  case (1 n delta M S D i st)
  show ?case
    by (subst TOETD_learn_loop.simps, subst ETD_learn_loop.simps)
       (simp add: "1.hyps" TOETD_learn_body_ETD)
qed

lemma TOETD_learn_ETD:
  "ETD_learn (etd_of s) (etd_args_of (to_gamma s) b) = map_sum id etd_of (TOETD_learn s b)"
  by (simp add: ETD_learn_def TOETD_learn_def etd_of_def Let_def TOETD_dot_ETD
        TOETD_learn_loop_ETD ETD_delta_def ETD_M_def ETD_S_def etd_args_of_def
      split: prod.splits)

lemma TOETD_learn_gamma: "TOETD_learn s b = Inr s1 \<Longrightarrow> to_gamma s1 = b_gammaPrime b"
  by (auto simp: TOETD_learn_def Let_def split: if_splits prod.splits)

lemma TOETD_trace_ETD:
  "ETD_trace (to_gamma s) (etd_of s) bs = map (map_sum id etd_of) (TOETD_trace s bs)"
proof (induction bs arbitrary: s)
  case Nil
  show ?case by simp
next
  case (Cons b bs)
  show ?case
  proof (cases "TOETD_learn s b")
    case (Inl err)
    then show ?thesis using TOETD_learn_ETD [of s b] by simp
  next
    case (Inr s1)
    then have "ETD_learn (etd_of s) (etd_args_of (to_gamma s) b) = Inr (etd_of s1)"
      using TOETD_learn_ETD [of s b] by simp
    moreover have "to_gamma s1 = b_gammaPrime b"
      using Inr by (rule TOETD_learn_gamma)
    ultimately show ?thesis using Inr Cons.IH [of s1] by simp
  qed
qed

lemma etd_of_fresh: "etd_of (TOETD_fresh n) = ETD_fresh n" "to_gamma (TOETD_fresh n) = 0"
  by (simp_all add: etd_of_def TOETD_fresh_def ETD_fresh_def)



lemma ETD_fresh_wf: "0 \<le> n \<Longrightarrow> ETD_wf (ETD_fresh n)"
  by (simp add: ETD_wf_def ETD_fresh_def)

lemma ETD_learn_Inr_bounds:
  "ETD_learn s a = Inr s1 \<Longrightarrow> in_bounds (etd_n s) (a_phi a) \<and> in_bounds (etd_n s) (a_phi_p a)"
  by (simp add: ETD_learn_def split: if_splits)

lemma ETD_learn_wf:
  fixes s :: "('a::comm_ring_1) ETD"
  assumes "ETD_wf s" "ETD_learn s a = Inr s1"
  shows "ETD_wf s1 \<and> etd_n s1 = etd_n s"
proof -
  have b: "in_bounds (etd_n s) (a_phi a)" "in_bounds (etd_n s) (a_phi_p a)"
    using ETD_learn_Inr_bounds [OF assms(2)] by simp_all
  have w: "in_bounds (etd_n s) (etd_theta s)" "in_bounds (etd_n s) (etd_e s)"
    using assms(1) by (simp_all add: ETD_wf_def in_bounds_def)
  show ?thesis
    using assms ETD_learn_in_bounds [OF w b] by (auto simp: ETD_wf_def)
qed

lemma ETD_run_wf:
  fixes s :: "('a::comm_ring_1) ETD"
  shows "ETD_wf s \<Longrightarrow> ETD_run s as = Inr s1 \<Longrightarrow> ETD_wf s1 \<and> etd_n s1 = etd_n s"
proof (induction as arbitrary: s)
  case Nil
  then show ?case by simp
next
  case (Cons a as)
  from Cons.prems(2) obtain s2 where s2: "ETD_learn s a = Inr s2" "ETD_run s2 as = Inr s1"
    by (auto split: sum.splits)
  have "ETD_wf s2 \<and> etd_n s2 = etd_n s"
    using Cons.prems(1) s2(1) by (rule ETD_learn_wf)
  then show ?case using Cons.IH [of s2] s2(2) by simp
qed

lemma ETD_learn_wf_closed:
  fixes s :: "('a::comm_ring_1) ETD"
  assumes "ETD_wf s" "in_bounds (etd_n s) (a_phi a)" "in_bounds (etd_n s) (a_phi_p a)"
  shows "ETD_learn s a =
    Inr \<lparr>etd_n = etd_n s,
         etd_theta = map (\<lambda>j. etd_theta s ! j + spec_delta_i s a j) [0..<nat (etd_n s)],
         etd_e = map (spec_trace s a) [0..<nat (etd_n s)],
         etd_F = spec_followon1 s a * a_rho a * a_gamma_p a,
         etd_D = (\<Sum>j<nat (etd_n s). spec_delta_i s a j * a_phi_p a ! j)\<rparr>"
proof -
  have w: "in_bounds (etd_n s) (etd_theta s)" "in_bounds (etd_n s) (etd_e s)"
    using assms(1) by (simp_all add: ETD_wf_def in_bounds_def)
  show ?thesis
    using assms(1) by (simp add: ETD_learn_in_bounds [OF w assms(2,3)] ETD_wf_def cong: map_cong)
qed


lemma spec_take:
  fixes s :: "('a::comm_ring_1) ETD"
  assumes "a' = a\<lparr>a_phi := take (nat (etd_n s)) (a_phi a), a_phi_p := take (nat (etd_n s)) (a_phi_p a)\<rparr>"
  shows "spec_followon1 s a' = spec_followon1 s a"
    and "spec_M s a' = spec_M s a"
    and "spec_delta s a' = spec_delta s a"
    and "spec_S s a' = spec_S s a"
    and "j < nat (etd_n s) \<Longrightarrow> spec_trace s a' j = spec_trace s a j"
    and "j < nat (etd_n s) \<Longrightarrow> spec_delta_i s a' j = spec_delta_i s a j"
proof -
  show f: "spec_followon1 s a' = spec_followon1 s a"
    by (simp add: spec_followon1_def assms)
  show m: "spec_M s a' = spec_M s a"
    by (simp add: spec_M_def f) (simp add: assms)
  show d: "spec_delta s a' = spec_delta s a"
    by (simp add: spec_delta_def spec_dot_def assms)
  show S: "spec_S s a' = spec_S s a"
    by (simp add: spec_S_def spec_dot_def m) (simp add: assms)
  show t: "spec_trace s a' j = spec_trace s a j" if "j < nat (etd_n s)"
    using that by (simp add: spec_trace_def S) (simp add: assms)
  show "spec_delta_i s a' j = spec_delta_i s a j" if "j < nat (etd_n s)"
    using that by (simp add: spec_delta_i_def t m d) (simp add: assms)
qed

lemma ETD_learn_take:
  fixes s :: "('a::comm_ring_1) ETD"
  assumes "ETD_wf s" "in_bounds (etd_n s) (a_phi a)" "in_bounds (etd_n s) (a_phi_p a)"
  shows "ETD_learn s (a\<lparr>a_phi := take (nat (etd_n s)) (a_phi a),
                         a_phi_p := take (nat (etd_n s)) (a_phi_p a)\<rparr>) = ETD_learn s a"
proof -
  define a' where "a' = a\<lparr>a_phi := take (nat (etd_n s)) (a_phi a),
                           a_phi_p := take (nat (etd_n s)) (a_phi_p a)\<rparr>"
  have b: "in_bounds (etd_n s) (a_phi a')" "in_bounds (etd_n s) (a_phi_p a')"
    using assms(2,3) by (simp_all add: a'_def in_bounds_def)
  have p: "a_phi_p a' ! j = a_phi_p a ! j" if "j < nat (etd_n s)" for j
    using that by (simp add: a'_def)
  have q: "a_rho a' = a_rho a" "a_gamma_p a' = a_gamma_p a"
    by (simp_all add: a'_def)
  have D: "(\<Sum>j<nat (etd_n s). spec_delta_i s a' j * a_phi_p a' ! j)
         = (\<Sum>j<nat (etd_n s). spec_delta_i s a j * a_phi_p a ! j)"
    by (intro sum.cong) (simp_all add: spec_take [OF a'_def] p)
  have T: "map (\<lambda>j. etd_theta s ! j + spec_delta_i s a' j) [0..<nat (etd_n s)]
         = map (\<lambda>j. etd_theta s ! j + spec_delta_i s a j) [0..<nat (etd_n s)]"
    by (simp add: spec_take [OF a'_def] cong: map_cong)
  have E: "map (spec_trace s a') [0..<nat (etd_n s)] = map (spec_trace s a) [0..<nat (etd_n s)]"
    by (simp add: spec_take [OF a'_def] cong: map_cong)
  have "ETD_learn s a' = ETD_learn s a"
    unfolding ETD_learn_wf_closed [OF assms] ETD_learn_wf_closed [OF assms(1) b]
    by (simp only: T E D q spec_take(1) [OF a'_def])
  then show ?thesis by (simp add: a'_def)
qed



section \<open>The loops without laws of arithmetic\<close>

lemma dbl_max_pos: "0 < dbl_max"
  by (simp add: dbl_max_def)

lemma dbl_float_laws: "float_laws dbl_finite"
  unfolding float_laws_def
proof (intro conjI allI impI)
  fix x :: dbl
  assume "dbl_finite x"
  then obtain a where x: "x = Num a" "- dbl_max \<le> a" "a \<le> dbl_max"
    by (cases x) auto
  show "0 * x = 0" "x * 0 = 0" "x * 1 = x" "x + 0 = x" "0 + x = x" "x - 0 = x"
    using x dbl_max_pos
    by (simp_all add: zero_dbl_def one_dbl_def times_dbl_def plus_dbl_def minus_dbl_def ovf_def)
next
  show "dbl_finite 0" "dbl_finite 1"
    by (simp_all add: zero_dbl_def one_dbl_def dbl_max_def)
qed

lemma float_lawsD:
  assumes "float_laws fin"
  shows "fin 0" "fin 1"
    and "fin x \<Longrightarrow> 0 * x = 0" "fin x \<Longrightarrow> x * 0 = 0" "fin x \<Longrightarrow> x * 1 = x"
    and "fin x \<Longrightarrow> x + 0 = x" "fin x \<Longrightarrow> 0 + x = x" "fin x \<Longrightarrow> x - 0 = x"
  using assms by (simp_all add: float_laws_def)

lemma fin_vec_nth: "fin_vec fin n v \<Longrightarrow> in_bounds n v \<Longrightarrow> j < nat n \<Longrightarrow> fin (v ! j)"
  by (simp add: fin_vec_def in_bounds_def list_all_length)

lemmas dbl_arith = zero_dbl_def one_dbl_def plus_dbl_def minus_dbl_def times_dbl_def ovf_def
  dbl_max_def

lemmas ETD_eval = ETD_learn_def in_bounds_def Let_def ETD_delta_def ETD_M_def ETD_S_def
  ETD_dot_def ETD_dot_loop.simps ETD_learn_loop.simps ETD_learn_body_def ETD_fresh_def

lemma ETD_dot_loop_foldl:
  "0 \<le> i \<Longrightarrow>
   ETD_dot_loop n v1 v2 i ret = foldl (\<lambda>acc k. acc + v1 ! k * v2 ! k) ret [nat i..<nat n]"
proof (induction n v1 v2 i ret rule: ETD_dot_loop.induct)
  case (1 n v1 v2 i ret)
  show ?case
  proof (cases "i < n")
    case True
    have k: "nat (i + 1) = Suc (nat i)" "nat i < nat n"
      using True "1.prems" by auto
    have "ETD_dot_loop n v1 v2 i ret = ETD_dot_loop n v1 v2 (i + 1) (ret + v1 ! nat i * v2 ! nat i)"
      using True by (subst ETD_dot_loop.simps) simp
    also have "\<dots> = foldl (\<lambda>acc k. acc + v1 ! k * v2 ! k) (ret + v1 ! nat i * v2 ! nat i)
                      [nat (i + 1)..<nat n]"
      using True "1.prems" by (intro "1.IH") auto
    also have "\<dots> = foldl (\<lambda>acc k. acc + v1 ! k * v2 ! k) ret [nat i..<nat n]"
      using k by (simp add: upt_conv_Cons)
    finally show ?thesis .
  next
    case False
    then show ?thesis using "1.prems" by (subst ETD_dot_loop.simps) simp
  qed
qed

lemma foldl_zero_terms:
  fixes fin :: "'a::{zero,one,plus,minus,times} \<Rightarrow> bool" and f :: "'b \<Rightarrow> 'a"
  assumes "float_laws fin" "\<And>k. k \<in> set ks \<Longrightarrow> f k = 0"
  shows "foldl (\<lambda>acc k. acc + f k) 0 ks = 0"
  using assms(2)
proof (induction ks)
  case Nil
  show ?case by simp
next
  case (Cons k ks)
  have z: "(0::'a) + 0 = 0"
    using assms(1) by (simp add: float_laws_def)
  have "f k = 0" using Cons.prems by simp
  then have "foldl (\<lambda>acc k. acc + f k) 0 (k # ks) = foldl (\<lambda>acc k. acc + f k) 0 ks"
    by (simp add: z)
  then show ?case using Cons by simp
qed

lemma ETD_dot_zero_right:
  assumes "float_laws fin" "fin_vec fin n v1" "in_bounds n v1" "\<And>k. k < nat n \<Longrightarrow> v2 ! k = 0"
  shows "ETD_dot n v1 v2 = 0"
proof -
  have "v1 ! k * v2 ! k = 0" if "k \<in> set [nat 0..<nat n]" for k
  proof -
    have k: "k < nat n" using that by simp
    then have "fin (v1 ! k)"
      using assms(2,3) by (simp add: fin_vec_def in_bounds_def list_all_length)
    then show ?thesis using assms(1,4) k by (simp add: float_laws_def)
  qed
  then show ?thesis
    unfolding ETD_dot_def by (subst ETD_dot_loop_foldl, simp) (rule foldl_zero_terms [OF assms(1)])
qed

lemma ETD_dot_zero_left:
  assumes "float_laws fin" "fin_vec fin n v2" "in_bounds n v2" "\<And>k. k < nat n \<Longrightarrow> v1 ! k = 0"
  shows "ETD_dot n v1 v2 = 0"
proof -
  have "v1 ! k * v2 ! k = 0" if "k \<in> set [nat 0..<nat n]" for k
  proof -
    have k: "k < nat n" using that by simp
    then have "fin (v2 ! k)"
      using assms(2,3) by (simp add: fin_vec_def in_bounds_def list_all_length)
    then show ?thesis using assms(1,4) k by (simp add: float_laws_def)
  qed
  then show ?thesis
    unfolding ETD_dot_def by (subst ETD_dot_loop_foldl, simp) (rule foldl_zero_terms [OF assms(1)])
qed

lemma ETD_learn_loop_foldl:
  "0 \<le> i \<Longrightarrow> nat n \<le> length e \<Longrightarrow> nat n \<le> length theta \<Longrightarrow>
   ETD_learn_loop n a delta M S D i (e, theta, Dp) =
     (map (\<lambda>j. if nat i \<le> j \<and> j < nat n then e_at a S e j else e ! j) [0..<length e],
      map (\<lambda>j. if nat i \<le> j \<and> j < nat n then theta ! j + delta_i_at a delta M S D e j
                else theta ! j) [0..<length theta],
      foldl (\<lambda>acc j. acc + delta_i_at a delta M S D e j * a_phi_p a ! j) Dp [nat i..<nat n])"
proof (induction n a delta M S D i "(e, theta, Dp)" arbitrary: e theta Dp
       rule: ETD_learn_loop.induct)
  case (1 n a delta M S D i)
  show ?case
  proof (cases "i < n")
    case True
    define k where "k = nat i"
    have k: "nat (i + 1) = Suc k" "k < nat n" "k < length e" "k < length theta" "nat i = k"
      using True "1.prems" by (auto simp: k_def)
    define e1 where "e1 = e[k := e_at a S e k]"
    define theta1 where "theta1 = theta[k := theta ! k + delta_i_at a delta M S D e k]"
    define Dp1 where "Dp1 = Dp + delta_i_at a delta M S D e k * a_phi_p a ! k"
    have later: "e_at a S e1 j = e_at a S e j"
      "delta_i_at a delta M S D e1 j = delta_i_at a delta M S D e j"
      if "Suc k \<le> j" for j
      using that by (simp_all add: e_at_def delta_i_at_def e1_def)
    have "ETD_learn_loop n a delta M S D i (e, theta, Dp)
            = ETD_learn_loop n a delta M S D (i + 1) (e1, theta1, Dp1)"
      using True k
      by (subst ETD_learn_loop.simps) (simp add: ETD_learn_body_eq e1_def theta1_def Dp1_def)
    also have "\<dots> =
       (map (\<lambda>j. if nat (i + 1) \<le> j \<and> j < nat n then e_at a S e1 j else e1 ! j) [0..<length e1],
        map (\<lambda>j. if nat (i + 1) \<le> j \<and> j < nat n then theta1 ! j + delta_i_at a delta M S D e1 j
                  else theta1 ! j) [0..<length theta1],
        foldl (\<lambda>acc j. acc + delta_i_at a delta M S D e1 j * a_phi_p a ! j) Dp1
          [nat (i + 1)..<nat n])"
      using True "1.prems" k
      by (intro "1.hyps") (simp_all add: ETD_learn_body_eq e1_def theta1_def Dp1_def)
    also have "\<dots> =
       (map (\<lambda>j. if nat i \<le> j \<and> j < nat n then e_at a S e j else e ! j) [0..<length e],
        map (\<lambda>j. if nat i \<le> j \<and> j < nat n then theta ! j + delta_i_at a delta M S D e j
                  else theta ! j) [0..<length theta],
        foldl (\<lambda>acc j. acc + delta_i_at a delta M S D e j * a_phi_p a ! j) Dp [nat i..<nat n])"
    proof -
      have len: "length e1 = length e" "length theta1 = length theta"
        by (simp_all add: e1_def theta1_def)
      have nth1: "e1 ! j = (if j = k then e_at a S e k else e ! j)" if "j < length e" for j
        using that by (simp add: e1_def nth_list_update)
      have nth2: "theta1 ! j = (if j = k then theta ! k + delta_i_at a delta M S D e k else theta ! j)"
        if "j < length theta" for j
        using that by (simp add: theta1_def nth_list_update)
      have ik: "nat (i + 1) = Suc k" "nat i = k" using k by simp_all
      have A: "map (\<lambda>j. if nat (i + 1) \<le> j \<and> j < nat n then e_at a S e1 j else e1 ! j) [0..<length e1]
             = map (\<lambda>j. if nat i \<le> j \<and> j < nat n then e_at a S e j else e ! j) [0..<length e]"
        unfolding ik len using k(2,3) by (intro nth_equalityI) (auto simp: later nth1)
      have B: "map (\<lambda>j. if nat (i + 1) \<le> j \<and> j < nat n then theta1 ! j + delta_i_at a delta M S D e1 j
                  else theta1 ! j) [0..<length theta1]
             = map (\<lambda>j. if nat i \<le> j \<and> j < nat n then theta ! j + delta_i_at a delta M S D e j
                  else theta ! j) [0..<length theta]"
        unfolding ik len using k(2,3,4) by (intro nth_equalityI) (auto simp: later nth2)
      have "foldl (\<lambda>acc j. acc + delta_i_at a delta M S D e1 j * a_phi_p a ! j) Dp1 [Suc k..<nat n]
          = foldl (\<lambda>acc j. acc + delta_i_at a delta M S D e j * a_phi_p a ! j) Dp1 [Suc k..<nat n]"
        by (intro foldl_cong) (simp_all add: later)
      then have C: "foldl (\<lambda>acc j. acc + delta_i_at a delta M S D e1 j * a_phi_p a ! j) Dp1
                      [nat (i + 1)..<nat n]
          = foldl (\<lambda>acc j. acc + delta_i_at a delta M S D e j * a_phi_p a ! j) Dp [nat i..<nat n]"
        unfolding ik using k(2) by (simp add: Dp1_def upt_conv_Cons)
      show ?thesis by (simp only: A B C)
    qed
    finally show ?thesis .
  next
    case False
    then have "nat n \<le> nat i" using "1.prems" by simp
    then show ?thesis using False
      by (subst ETD_learn_loop.simps) (auto intro!: nth_equalityI)
  qed
qed

lemma ETD_learn_wf_foldl:
  assumes "ETD_wf s" "in_bounds (etd_n s) (a_phi a)" "in_bounds (etd_n s) (a_phi_p a)"
  shows "ETD_learn s a =
    Inr \<lparr>etd_n = etd_n s,
         etd_theta = map (\<lambda>j. etd_theta s ! j
                           + delta_i_at a (ETD_delta s a) (ETD_M a (etd_F s + a_I a))
                               (ETD_S s a (ETD_M a (etd_F s + a_I a))) (etd_D s) (etd_e s) j)
                       [0..<nat (etd_n s)],
         etd_e = map (e_at a (ETD_S s a (ETD_M a (etd_F s + a_I a))) (etd_e s)) [0..<nat (etd_n s)],
         etd_F = (etd_F s + a_I a) * (a_rho a * a_gamma_p a),
         etd_D = foldl (\<lambda>acc j. acc
                           + delta_i_at a (ETD_delta s a) (ETD_M a (etd_F s + a_I a))
                               (ETD_S s a (ETD_M a (etd_F s + a_I a))) (etd_D s) (etd_e s) j
                             * a_phi_p a ! j) 0 [0..<nat (etd_n s)]\<rparr>"
  using assms
  by (simp add: ETD_learn_def Let_def ETD_learn_loop_foldl in_bounds_def ETD_wf_def cong: map_cong)

section \<open>The claims\<close>

text \<open>
  Claim C1. For every transition whose vectors \<open>phi\<close> and \<open>phi_next\<close> have length \<open>n\<close>,
  \<open>learn\<close> changes the state of the learner exactly as the algorithm of section 4.2 says:
  the source's loops, run on a state that satisfies the class invariant, give the state
  \<open>spec_learn\<close> that is written from the sentences of the specification.
\<close>

theorem ETD_learn_refines_spec:
  fixes s :: "('a::comm_ring_1) ETD"
  assumes "ETD_wf s" "length (a_phi a) = nat (etd_n s)" "length (a_phi_p a) = nat (etd_n s)"
  shows "ETD_learn s a = Inr (spec_learn s a)"
proof -
  have "in_bounds (etd_n s) (a_phi a)" "in_bounds (etd_n s) (a_phi_p a)"
    using assms(2,3) by (simp_all add: in_bounds_def)
  with assms(1) show ?thesis
    by (simp add: ETD_learn_wf_closed spec_learn_def)
qed

theorem ETD_learn_refines_spec_witness:
  "ETD_wf busy_state
   \<and> length (a_phi scenario_args) = nat (etd_n busy_state)
   \<and> length (a_phi_p scenario_args) = nat (etd_n busy_state)
   \<and> ETD_learn busy_state scenario_args = Inr (spec_learn busy_state scenario_args)"
proof -
  have h1: "ETD_wf busy_state"
    by (simp add: ETD_wf_def busy_state_def)
  have h2: "length (a_phi scenario_args) = nat (etd_n busy_state)"
    by (simp add: busy_state_def scenario_args_def)
  have h3: "length (a_phi_p scenario_args) = nat (etd_n busy_state)"
    by (simp add: busy_state_def scenario_args_def)
  show ?thesis
    using h1 h2 h3 ETD_learn_refines_spec [OF h1 h2 h3] by simp
qed

text \<open>
  Claim C2. On a freshly constructed learner of dimension 2 (weights \<open>[0, 0]\<close>) the call
  \<open>learn(phi=[1,0], reward=1, phi_next=[0,1], alpha=0.1, gamma=0.9, gamma_next=0.9,
  interest=1, lambda=0, rho=1)\<close> computes \<open>delta = 1\<close>, raises \<open>followon\<close> to \<open>1\<close> and
  leaves \<open>followon = 0.9\<close>, \<open>trace = [0.1, 0]\<close>, \<open>weights = [0.1, 0]\<close> and \<open>dual = 0\<close>.
  The numbers are reals.
\<close>

theorem scenario_values:
  fixes junk_e junk_theta :: "nat \<Rightarrow> real"
  shows "ETD_new 2 junk_e junk_theta = Inr (ETD_fresh 2)
   \<and> etd_theta (ETD_fresh 2 :: real ETD) = [0, 0]
   \<and> ETD_delta (ETD_fresh 2) scenario_args = 1
   \<and> etd_F (ETD_fresh 2) + a_I scenario_args = 1
   \<and> ETD_learn (ETD_fresh 2) scenario_args =
       Inr \<lparr>etd_n = 2, etd_theta = [1 / 10, 0], etd_e = [1 / 10, 0],
            etd_F = 9 / 10, etd_D = 0\<rparr>"
proof -
  have "ETD_new 2 junk_e junk_theta = Inr (ETD_fresh 2 :: real ETD)"
    by (simp add: ETD_new_def new_array_def ETD_init_loop.simps ETD_fresh_def
          upt_rec numeral_2_eq_2)
  moreover have "etd_theta (ETD_fresh 2 :: real ETD) = [0, 0]"
    by (simp add: ETD_fresh_def numeral_2_eq_2)
  moreover have "ETD_delta (ETD_fresh 2) scenario_args = 1"
    by (simp add: ETD_delta_def ETD_dot_def ETD_dot_loop.simps ETD_fresh_def
          scenario_args_def numeral_2_eq_2)
  moreover have "etd_F (ETD_fresh 2) + a_I scenario_args = 1"
    by (simp add: ETD_fresh_def scenario_args_def)
  moreover have "ETD_learn (ETD_fresh 2) scenario_args =
       Inr \<lparr>etd_n = 2, etd_theta = [1 / 10, 0], etd_e = [1 / 10, 0],
            etd_F = 9 / 10, etd_D = 0\<rparr>"
    by (simp add: ETD_learn_def in_bounds_def Let_def ETD_delta_def ETD_M_def ETD_S_def
          ETD_dot_def ETD_dot_loop.simps ETD_learn_loop.simps ETD_learn_body_def
          ETD_fresh_def scenario_args_def numeral_2_eq_2)
  ultimately show ?thesis by simp
qed

text \<open>
  Claim C3. A fresh \<open>ETD\<close> object and a fresh \<open>TOETD\<close> object of the same dimension, fed
  the same transitions, hold the same \<open>n\<close>, weights, trace, followon and dual after every
  call, when the \<open>gamma\<close> given to \<open>ETD::learn\<close> is \<open>0\<close> on the first call and the
  \<open>gammaPrime\<close> of the call before on every later one; a call fails in one class exactly
  when it fails in the other. This holds for every interpretation of the arithmetic.
\<close>

theorem ETD_TOETD_same_states:
  assumes "ETD_new n junk_e junk_theta = Inr s"
    and "TOETD_new n I junk_e' junk_theta' = Inr t"
  shows "ETD_trace 0 s bs = map (map_sum id etd_of) (TOETD_trace t bs)"
proof -
  have n: "0 \<le> n"
    using assms(1) ETD_new_neg [of n junk_e junk_theta] by (cases "0 \<le> n") auto
  have "s = ETD_fresh n" "t = TOETD_fresh n"
    using assms n by (simp_all add: ETD_new_fresh TOETD_new_fresh)
  then show ?thesis
    using TOETD_trace_ETD [of "TOETD_fresh n" bs] by (simp add: etd_of_fresh)
qed

theorem ETD_TOETD_same_states_witness:
  "ETD_new 2 real real = Inr (ETD_fresh 2)
   \<and> TOETD_new 2 7 real real = Inr (TOETD_fresh 2)
   \<and> ETD_trace 0 (ETD_fresh 2) [toetd_example, toetd_example]
       = map (map_sum id etd_of) (TOETD_trace (TOETD_fresh 2) [toetd_example, toetd_example])"
proof -
  have h1: "ETD_new 2 real real = Inr (ETD_fresh 2)"
    by (simp add: ETD_new_def new_array_def ETD_init_loop.simps ETD_fresh_def
          upt_rec numeral_2_eq_2)
  have h2: "TOETD_new 2 7 real real = Inr (TOETD_fresh 2)"
    by (simp add: TOETD_new_def new_array_def TOETD_init_loop.simps TOETD_fresh_def
          upt_rec numeral_2_eq_2 Let_def)
  show ?thesis
    by (intro conjI h1 h2 ETD_TOETD_same_states [OF h1 h2])
qed

text \<open>
  Claim C4, as the code has it. The code defines no \<open>InvalidArgument\<close> and checks
  neither the dimension nor the length of any vector. Construction succeeds for every
  dimension \<open>n \<ge> 0\<close>, \<open>0\<close> included, and gives the all-zero state. A call of \<open>learn\<close> or
  \<open>predict\<close> whose vectors have at least \<open>n\<close> components, \<open>n\<close> or more, succeeds and uses
  only the first \<open>n\<close> components of each vector.
\<close>

theorem ETD_accepts_without_validation:
  fixes s :: "('a::comm_ring_1) ETD"
  shows "(0 \<le> n \<longrightarrow> ETD_new n junk_e junk_theta = Inr (ETD_fresh n :: 'a ETD))
   \<and> (ETD_wf s \<and> in_bounds (etd_n s) (a_phi a) \<and> in_bounds (etd_n s) (a_phi_p a) \<longrightarrow>
        (\<exists>s1. ETD_learn s a = Inr s1)
        \<and> ETD_learn s a = ETD_learn s (a\<lparr>a_phi := take (nat (etd_n s)) (a_phi a),
                                           a_phi_p := take (nat (etd_n s)) (a_phi_p a)\<rparr>))
   \<and> (ETD_wf s \<and> in_bounds (etd_n s) fvec \<longrightarrow>
        ETD_predict s fvec
          = Inr (spec_dot (nat (etd_n s)) (etd_theta s) (take (nat (etd_n s)) fvec), s))"
proof (intro conjI impI)
  assume "0 \<le> n"
  then show "ETD_new n junk_e junk_theta = Inr (ETD_fresh n :: 'a ETD)"
    by (rule ETD_new_fresh)
next
  assume h: "ETD_wf s \<and> in_bounds (etd_n s) (a_phi a) \<and> in_bounds (etd_n s) (a_phi_p a)"
  then show "\<exists>s1. ETD_learn s a = Inr s1"
    by (simp add: ETD_learn_wf_closed)
  from h show "ETD_learn s a = ETD_learn s (a\<lparr>a_phi := take (nat (etd_n s)) (a_phi a),
                                           a_phi_p := take (nat (etd_n s)) (a_phi_p a)\<rparr>)"
    by (simp add: ETD_learn_take)
next
  assume h: "ETD_wf s \<and> in_bounds (etd_n s) fvec"
  then show "ETD_predict s fvec
          = Inr (spec_dot (nat (etd_n s)) (etd_theta s) (take (nat (etd_n s)) fvec), s)"
    by (simp add: ETD_predict_def ETD_wf_def in_bounds_def ETD_dot_spec spec_dot_def)
qed

theorem ETD_accepts_without_validation_witness:
  "(0::int) \<le> 0 \<and> ETD_new 0 real real = Inr (ETD_fresh 0 :: real ETD)
   \<and> ETD_wf warm_state
   \<and> in_bounds (etd_n warm_state) (a_phi long_args)
   \<and> in_bounds (etd_n warm_state) (a_phi_p long_args)
   \<and> in_bounds (etd_n warm_state) [3, 4 :: real]
   \<and> ETD_learn warm_state long_args
       = Inr \<lparr>etd_n = 1, etd_theta = [1], etd_e = [2], etd_F = 0, etd_D = 0\<rparr>
   \<and> ETD_learn warm_state long_args
       = ETD_learn warm_state (long_args\<lparr>a_phi := [1], a_phi_p := [0]\<rparr>)
   \<and> ETD_predict warm_state [3, 4] = Inr (3, warm_state)"
proof -
  have h1: "ETD_wf warm_state"
    by (simp add: ETD_wf_def warm_state_def)
  have h2: "in_bounds (etd_n warm_state) (a_phi long_args)"
    "in_bounds (etd_n warm_state) (a_phi_p long_args)"
    "in_bounds (etd_n warm_state) [3, 4 :: real]"
    by (simp_all add: in_bounds_def warm_state_def long_args_def)
  have v: "ETD_learn warm_state long_args
       = Inr \<lparr>etd_n = 1, etd_theta = [1], etd_e = [2], etd_F = 0, etd_D = 0\<rparr>"
    by (simp add: ETD_learn_def in_bounds_def Let_def ETD_delta_def ETD_M_def ETD_S_def
          ETD_dot_def ETD_dot_loop.simps ETD_learn_loop.simps ETD_learn_body_def
          warm_state_def long_args_def)
  have t: "take (nat (etd_n warm_state)) (a_phi long_args) = [1]"
    "take (nat (etd_n warm_state)) (a_phi_p long_args) = [0]"
    "spec_dot (nat (etd_n warm_state)) (etd_theta warm_state)
       (take (nat (etd_n warm_state)) [3, 4]) = 3"
    by (simp_all add: warm_state_def long_args_def spec_dot_def)
  show ?thesis
    using h1 h2 v t
      ETD_accepts_without_validation [of 0 real real warm_state long_args "[3, 4]"]
    by simp
qed

text \<open>
  Claim C4, as stated, fails: construction with dimension \<open>0\<close> succeeds, and \<open>learn\<close>
  on an object of dimension \<open>1\<close> with vectors of length \<open>2\<close> succeeds and changes the
  weights, where the claim wants both rejected with \<open>InvalidArgument\<close>.
\<close>

theorem ETD_no_InvalidArgument_counterexample:
  "ETD_new 0 real real
     = Inr \<lparr>etd_n = 0, etd_theta = [], etd_e = [], etd_F = 0, etd_D = 0 :: real\<rparr>
   \<and> length (a_phi long_args) = 2
   \<and> length (a_phi_p long_args) = 2
   \<and> ETD_new 1 real real
        = Inr \<lparr>etd_n = 1, etd_theta = [0], etd_e = [0], etd_F = 0, etd_D = 0 :: real\<rparr>
   \<and> ETD_learn \<lparr>etd_n = 1, etd_theta = [0], etd_e = [0], etd_F = 0, etd_D = 0\<rparr> long_args
       = Inr \<lparr>etd_n = 1, etd_theta = [1], etd_e = [1], etd_F = 0, etd_D = 0\<rparr>
   \<and> ETD_predict \<lparr>etd_n = 1, etd_theta = [1], etd_e = [1], etd_F = 0, etd_D = 0\<rparr> [3, 4]
       = Inr (3 :: real, \<lparr>etd_n = 1, etd_theta = [1], etd_e = [1], etd_F = 0, etd_D = 0\<rparr>)"
  by (simp add: ETD_new_def new_array_def ETD_init_loop.simps
        ETD_learn_def in_bounds_def Let_def ETD_delta_def ETD_M_def ETD_S_def
        ETD_dot_def ETD_dot_loop.simps ETD_learn_loop.simps ETD_learn_body_def
        ETD_predict_def long_args_def)




text \<open>
  Claim C6. Learning is deterministic: two objects constructed with the same dimension,
  whatever the fresh arrays held before initialisation, and given the same sequence
  of \<open>learn\<close> calls end in the same state, weights included, or fail alike.
\<close>

theorem ETD_deterministic:
  "ETD_session n junk_e junk_theta as = ETD_session n junk_e' junk_theta' as"
proof (cases "0 \<le> n")
  case True
  then show ?thesis by (simp add: ETD_session_def ETD_new_fresh)
next
  case False
  then show ?thesis by (simp add: ETD_session_def ETD_new_neg)
qed

text \<open>
  Claim C7. In every state reached from a fresh learner of dimension \<open>n\<close> by a sequence
  of \<open>learn\<close> calls, \<open>predict\<close> on a vector \<open>f\<close> of length \<open>n\<close> returns \<open>dot(weights, f)\<close>,
  the sum of the products of the components, and leaves the state as it was.
\<close>

theorem ETD_predict_dot:
  fixes s :: "('a::comm_ring_1) ETD"
  assumes "ETD_new n junk_e junk_theta = Inr s0" "ETD_run s0 as = Inr s" "length f = nat n"
  shows "ETD_predict s f = Inr (ETD_dot (etd_n s) (etd_theta s) f, s)
     \<and> ETD_dot (etd_n s) (etd_theta s) f = (\<Sum>i<nat n. etd_theta s ! i * f ! i)"
proof -
  have n: "0 \<le> n"
    using assms(1) ETD_new_neg [of n junk_e junk_theta] by (cases "0 \<le> n") auto
  then have s0: "s0 = ETD_fresh n"
    using assms(1) by (simp add: ETD_new_fresh)
  have "ETD_wf s \<and> etd_n s = etd_n s0"
    using ETD_fresh_wf [OF n] assms(2) unfolding s0 by (rule ETD_run_wf)
  then have w: "ETD_wf s" "etd_n s = n"
    by (simp_all add: s0 ETD_fresh_def)
  show ?thesis
    using w assms(3)
    by (simp add: ETD_predict_def in_bounds_def ETD_wf_def ETD_dot_spec spec_dot_def)
qed

theorem ETD_predict_dot_witness:
  "ETD_new 1 real real = Inr (ETD_fresh 1)
   \<and> ETD_run (ETD_fresh 1) [warmup_args, zero_phi_args] = Inr cooled_state
   \<and> length [3 :: real] = nat 1
   \<and> ETD_predict cooled_state [3] = Inr (6, cooled_state)"
proof -
  have h1: "ETD_new 1 real real = Inr (ETD_fresh 1)"
    by (simp add: ETD_new_def new_array_def ETD_init_loop.simps ETD_fresh_def)
  have h2: "ETD_run (ETD_fresh 1) [warmup_args, zero_phi_args] = Inr cooled_state"
    by (simp add: ETD_learn_def in_bounds_def Let_def ETD_delta_def ETD_M_def ETD_S_def
          ETD_dot_def ETD_dot_loop.simps ETD_learn_loop.simps ETD_learn_body_def
          ETD_fresh_def warmup_args_def zero_phi_args_def cooled_state_def)
  have h3: "length [3 :: real] = nat 1"
    by simp
  show ?thesis
    using h1 h2 h3 ETD_predict_dot [OF h1 h2 h3]
    by (simp add: cooled_state_def)
qed

text \<open>
  Claim C8, as the code has it. When \<open>learn\<close> is called with the all-zero \<open>phi\<close>,
  \<open>reward = 0\<close> and \<open>gamma_next = 0\<close>, and the state, the arguments and the values
  \<open>dot(weights, phi_next)\<close>, \<open>rho*gamma*lambda\<close>, \<open>rho*alpha*M\<close>,
  \<open>rho*gamma*lambda*trace[i]\<close> and \<open>dual*(rho*gamma*lambda*trace[i])\<close> are finite, then
  \<open>delta = 0\<close> and every weight moves by the dual term alone,
  \<open>delta_i = dual * (rho*gamma*lambda*trace[i])\<close>. So \<open>delta_i = 0\<close> for every \<open>i\<close> and the
  weights are unchanged when the trace is all zero, or when \<open>dual = 0\<close>. This holds for
  every arithmetic with the laws \<open>float_laws\<close>, so for doubles.
\<close>

theorem ETD_zero_update:
  fixes s :: "('a::{zero,one,plus,minus,times}) ETD"
  assumes laws: "float_laws fin"
    and wf: "ETD_wf s"
    and phi: "a_phi a = replicate (nat (etd_n s)) 0"
    and phi_p: "length (a_phi_p a) = nat (etd_n s)"
    and r: "a_r a = 0"
    and gamma_p: "a_gamma_p a = 0"
    and inputs: "ETD_finite_inputs fin s a"
    and locals: "fin (ETD_dot (etd_n s) (etd_theta s) (a_phi_p a))"
      "fin (a_rho a * a_gamma a * a_lambda a)"
      "fin (a_rho a * a_alpha a * ETD_M a (etd_F s + a_I a))"
    and decayed: "\<forall>i<nat (etd_n s).
           fin (a_rho a * a_gamma a * a_lambda a * etd_e s ! i)
         \<and> fin (etd_D s * (a_rho a * a_gamma a * a_lambda a * etd_e s ! i))"
  shows "ETD_delta s a = 0
     \<and> (\<exists>s1. ETD_learn s a = Inr s1
          \<and> (\<forall>i<nat (etd_n s).
                etd_theta s1 ! i
                  = etd_theta s ! i + etd_D s * (a_rho a * a_gamma a * a_lambda a * etd_e s ! i))
          \<and> (etd_e s = replicate (nat (etd_n s)) 0 \<or> etd_D s = 0 \<longrightarrow>
                etd_theta s1 = etd_theta s))"
proof -
  note L = float_lawsD [OF laws]
  define M where "M = ETD_M a (etd_F s + a_I a)"
  define rgl where "rgl = a_rho a * a_gamma a * a_lambda a"
  define ram where "ram = a_rho a * a_alpha a * M"
  have len: "length (etd_theta s) = nat (etd_n s)" "length (etd_e s) = nat (etd_n s)"
    using wf by (simp_all add: ETD_wf_def)
  have bs: "in_bounds (etd_n s) (etd_theta s)" "in_bounds (etd_n s) (etd_e s)"
    using len by (simp_all add: in_bounds_def)
  have b: "in_bounds (etd_n s) (a_phi a)" "in_bounds (etd_n s) (a_phi_p a)"
    using phi phi_p by (simp_all add: in_bounds_def)
  have fvec: "fin_vec fin (etd_n s) (etd_theta s)" "fin_vec fin (etd_n s) (etd_e s)"
    and fD: "fin (etd_D s)"
    using inputs by (simp_all add: ETD_finite_inputs_def)
  have f: "fin rgl" "fin ram"
    using locals(2,3) by (simp_all add: rgl_def ram_def M_def)
  have fx: "fin (rgl * etd_e s ! j)" "fin (etd_D s * (rgl * etd_e s ! j))"
    if "j < nat (etd_n s)" for j
    using decayed that by (simp_all add: rgl_def)
  have fth: "fin (etd_theta s ! j)" if "j < nat (etd_n s)" for j
    using fvec(1) bs(1) that by (rule fin_vec_nth)
  have pz: "a_phi a ! j = 0" if "j < nat (etd_n s)" for j
    using that by (simp add: phi)
  have d2: "ETD_dot (etd_n s) (etd_theta s) (a_phi a) = 0"
    using laws fvec(1) bs(1) pz by (rule ETD_dot_zero_right)
  have d3: "ETD_dot (etd_n s) (a_phi a) (etd_e s) = 0"
    using laws fvec(2) bs(2) pz by (rule ETD_dot_zero_left)
  have delta: "ETD_delta s a = 0"
    unfolding ETD_delta_def r gamma_p d2 by (simp add: L locals(1))
  have S: "ETD_S s a M = ram"
    unfolding ETD_S_def d3 rgl_def [symmetric] ram_def [symmetric] by (simp add: L f)
  have e1: "e_at a ram (etd_e s) j = rgl * etd_e s ! j" if "j < nat (etd_n s)" for j
    unfolding e_at_def rgl_def [symmetric] pz [OF that] using that by (simp add: L f fx)
  have d1: "delta_i_at a 0 M ram (etd_D s) (etd_e s) j = etd_D s * (rgl * etd_e s ! j)"
    if "j < nat (etd_n s)" for j
    unfolding delta_i_at_def e1 [OF that] ram_def [symmetric] pz [OF that]
    using that by (simp add: L f fx)
  define th1 where "th1 = map (\<lambda>j. etd_theta s ! j + delta_i_at a 0 M ram (etd_D s) (etd_e s) j)
                            [0..<nat (etd_n s)]"
  have nth: "th1 ! i = etd_theta s ! i + etd_D s * (rgl * etd_e s ! i)"
    if "i < nat (etd_n s)" for i
    using that by (simp add: th1_def d1)
  have same: "th1 = etd_theta s"
    if "etd_e s = replicate (nat (etd_n s)) 0 \<or> etd_D s = 0"
  proof (rule nth_equalityI)
    show "length th1 = length (etd_theta s)"
      by (simp add: th1_def len)
  next
    fix i assume "i < length th1"
    then have i: "i < nat (etd_n s)" by (simp add: th1_def)
    have "etd_D s * (rgl * etd_e s ! i) = 0"
      using that
    proof
      assume "etd_e s = replicate (nat (etd_n s)) 0"
      then have "etd_e s ! i = 0" using i by simp
      then show ?thesis by (simp add: L f fD)
    next
      assume "etd_D s = 0"
      then show ?thesis using fx(1) [OF i] by (simp add: L)
    qed
    then show "th1 ! i = etd_theta s ! i"
      using i by (simp add: nth L fth)
  qed
  have learn: "ETD_learn s a =
    Inr \<lparr>etd_n = etd_n s, etd_theta = th1,
         etd_e = map (e_at a ram (etd_e s)) [0..<nat (etd_n s)],
         etd_F = (etd_F s + a_I a) * (a_rho a * a_gamma_p a),
         etd_D = foldl (\<lambda>acc j. acc + delta_i_at a 0 M ram (etd_D s) (etd_e s) j * a_phi_p a ! j)
                   0 [0..<nat (etd_n s)]\<rparr>"
    unfolding ETD_learn_wf_foldl [OF wf b] M_def [symmetric] S delta th1_def ..
  show ?thesis
    using delta nth same unfolding learn rgl_def by simp
qed

theorem ETD_zero_update_witness:
  "float_laws dbl_finite \<and> ETD_wf dbl_state
   \<and> a_phi zero_phi_dbl_args = replicate (nat (etd_n dbl_state)) 0
   \<and> length (a_phi_p zero_phi_dbl_args) = nat (etd_n dbl_state)
   \<and> a_r zero_phi_dbl_args = 0 \<and> a_gamma_p zero_phi_dbl_args = 0
   \<and> ETD_finite_inputs dbl_finite dbl_state zero_phi_dbl_args
   \<and> ETD_delta dbl_state zero_phi_dbl_args = 0
   \<and> (\<exists>s1. ETD_learn dbl_state zero_phi_dbl_args = Inr s1
         \<and> etd_theta s1 ! 0 = Num 10 \<and> etd_theta s1 ! 1 = Num 14)"
proof -
  have h1: "ETD_wf dbl_state"
    by (simp add: ETD_wf_def dbl_state_def)
  have h2: "a_phi zero_phi_dbl_args = replicate (nat (etd_n dbl_state)) 0"
    by (simp add: zero_phi_dbl_args_def dbl_state_def numeral_2_eq_2)
  have h3: "length (a_phi_p zero_phi_dbl_args) = nat (etd_n dbl_state)"
    by (simp add: zero_phi_dbl_args_def dbl_state_def)
  have h4: "a_r zero_phi_dbl_args = 0" "a_gamma_p zero_phi_dbl_args = 0"
    by (simp_all add: zero_phi_dbl_args_def)
  have h5: "ETD_finite_inputs dbl_finite dbl_state zero_phi_dbl_args"
    by (simp add: ETD_finite_inputs_def fin_vec_def dbl_state_def zero_phi_dbl_args_def dbl_arith)
  have h6: "dbl_finite (ETD_dot (etd_n dbl_state) (etd_theta dbl_state) (a_phi_p zero_phi_dbl_args))"
    "dbl_finite (a_rho zero_phi_dbl_args * a_gamma zero_phi_dbl_args * a_lambda zero_phi_dbl_args)"
    "dbl_finite (a_rho zero_phi_dbl_args * a_alpha zero_phi_dbl_args
                   * ETD_M zero_phi_dbl_args (etd_F dbl_state + a_I zero_phi_dbl_args))"
    by (simp_all add: ETD_eval dbl_state_def zero_phi_dbl_args_def dbl_arith numeral_2_eq_2)
  have v: "a_rho zero_phi_dbl_args * a_gamma zero_phi_dbl_args * a_lambda zero_phi_dbl_args
             = Num (1 / 2)"
    "etd_e dbl_state = [Num 3, Num 4]" "etd_D dbl_state = Num 6" "nat (etd_n dbl_state) = 2"
    "etd_theta dbl_state = [Num 1, Num 2]"
    by (simp_all add: dbl_state_def zero_phi_dbl_args_def dbl_arith)
  have h7: "\<forall>i<nat (etd_n dbl_state).
      dbl_finite (a_rho zero_phi_dbl_args * a_gamma zero_phi_dbl_args * a_lambda zero_phi_dbl_args
                    * etd_e dbl_state ! i)
    \<and> dbl_finite (etd_D dbl_state
                    * (a_rho zero_phi_dbl_args * a_gamma zero_phi_dbl_args
                         * a_lambda zero_phi_dbl_args * etd_e dbl_state ! i))"
    unfolding v by (simp add: less_Suc_eq numeral_2_eq_2 dbl_arith)
  have i: "(0::nat) < nat (etd_n dbl_state)" "(1::nat) < nat (etd_n dbl_state)"
    by (simp_all add: v)
  have c: "etd_theta dbl_state ! 0
             + etd_D dbl_state
                 * (a_rho zero_phi_dbl_args * a_gamma zero_phi_dbl_args
                      * a_lambda zero_phi_dbl_args * etd_e dbl_state ! 0) = Num 10"
    "etd_theta dbl_state ! 1
             + etd_D dbl_state
                 * (a_rho zero_phi_dbl_args * a_gamma zero_phi_dbl_args
                      * a_lambda zero_phi_dbl_args * etd_e dbl_state ! 1) = Num 14"
    by (simp_all add: dbl_state_def zero_phi_dbl_args_def dbl_arith)
  show ?thesis
    using dbl_float_laws h1 h2 h3 h4 h5 i c
      ETD_zero_update [OF dbl_float_laws h1 h2 h3 h4 h5 h6 h7]
    by auto
qed

text \<open>
  Claim C8, as stated, fails. After one ordinary transition a learner of dimension \<open>1\<close>
  holds weight \<open>1\<close>, trace \<open>1\<close> and dual \<open>1\<close>; the call with \<open>phi = [0]\<close>, \<open>reward = 0\<close>
  and \<open>gamma_next = 0\<close> then moves the weight to \<open>2\<close>.
\<close>

theorem ETD_zero_update_counterexample:
  "ETD_learn (ETD_fresh 1) warmup_args = Inr warm_state
   \<and> a_phi zero_phi_args = [0] \<and> a_r zero_phi_args = 0 \<and> a_gamma_p zero_phi_args = 0
   \<and> ETD_learn warm_state zero_phi_args = Inr cooled_state
   \<and> etd_theta warm_state = [1] \<and> etd_theta cooled_state = [2]"
  by (simp add: ETD_learn_def in_bounds_def Let_def ETD_delta_def ETD_M_def ETD_S_def
        ETD_dot_def ETD_dot_loop.simps ETD_learn_loop.simps ETD_learn_body_def
        ETD_fresh_def warmup_args_def zero_phi_args_def warm_state_def cooled_state_def)

text \<open>
  Claim C9. The constructor of \<open>TOETD\<close> never reads its parameter \<open>I\<close>: two objects
  constructed with the same dimension and different \<open>I\<close> start in the same state, and
  every sequence of \<open>learn\<close> and \<open>predict\<close> calls returns the same values and ends in the
  same state on both.
\<close>

theorem TOETD_interest_unused:
  "TOETD_new n I1 junk_e junk_theta = TOETD_new n I2 junk_e' junk_theta'
   \<and> TOETD_session n I1 junk_e junk_theta cs = TOETD_session n I2 junk_e' junk_theta' cs"
proof (cases "0 \<le> n")
  case True
  then show ?thesis by (simp add: TOETD_session_def TOETD_new_fresh)
next
  case False
  then show ?thesis by (simp add: TOETD_session_def TOETD_new_neg)
qed

text \<open>
  Claim C10, as the code has it. A call of \<open>learn\<close> with \<open>rho = 0\<close> leaves the weights as
  they were and sets the trace to all zeros, \<open>followon\<close> to \<open>0\<close> and \<open>dual\<close> to \<open>0\<close>,
  when the state and the arguments are finite and the call computes finite values for
  \<open>followon + interest\<close>, \<open>delta\<close>, \<open>M\<close> and \<open>dot(phi, trace)\<close>. This holds for every
  arithmetic with the laws \<open>float_laws\<close>, so for doubles.
\<close>

theorem ETD_learn_rho_zero:
  fixes s :: "('a::{zero,one,plus,minus,times}) ETD"
  assumes laws: "float_laws fin"
    and wf: "ETD_wf s"
    and rho: "a_rho a = 0"
    and b: "in_bounds (etd_n s) (a_phi a)" "in_bounds (etd_n s) (a_phi_p a)"
    and inputs: "ETD_finite_inputs fin s a"
    and locals: "fin (etd_F s + a_I a)" "fin (ETD_delta s a)"
      "fin (ETD_M a (etd_F s + a_I a))" "fin (ETD_dot (etd_n s) (a_phi a) (etd_e s))"
  shows "ETD_learn s a =
    Inr \<lparr>etd_n = etd_n s, etd_theta = etd_theta s, etd_e = replicate (nat (etd_n s)) 0,
         etd_F = 0, etd_D = 0\<rparr>"
proof -
  note L = float_lawsD [OF laws]
  define M where "M = ETD_M a (etd_F s + a_I a)"
  have len: "length (etd_theta s) = nat (etd_n s)" "length (etd_e s) = nat (etd_n s)"
    using wf by (simp_all add: ETD_wf_def)
  have bs: "in_bounds (etd_n s) (etd_theta s)" "in_bounds (etd_n s) (etd_e s)"
    using len by (simp_all add: in_bounds_def)
  have f: "fin (a_alpha a)" "fin (a_gamma a)" "fin (a_gamma_p a)" "fin (a_lambda a)"
    "fin (etd_D s)" "fin M"
    using inputs locals(3) by (simp_all add: ETD_finite_inputs_def M_def)
  have fv: "fin (etd_theta s ! j)" "fin (etd_e s ! j)" "fin (a_phi a ! j)" "fin (a_phi_p a ! j)"
    if "j < nat (etd_n s)" for j
    using inputs b bs that by (auto simp: ETD_finite_inputs_def intro: fin_vec_nth)
  have rgl: "a_rho a * a_gamma a * a_lambda a = 0"
    by (simp add: rho L f)
  have ram: "a_rho a * a_alpha a * M = 0"
    by (simp add: rho L f)
  have S: "ETD_S s a M = 0"
    unfolding ETD_S_def rgl ram by (simp add: L locals(4))
  have e0: "e_at a 0 (etd_e s) j = 0" if "j < nat (etd_n s)" for j
    unfolding e_at_def rgl using that by (simp add: L fv)
  have d0: "delta_i_at a (ETD_delta s a) M 0 (etd_D s) (etd_e s) j = 0"
    if "j < nat (etd_n s)" for j
    unfolding delta_i_at_def ram e0 [OF that] using that by (simp add: L fv f locals(2))
  have T: "map (\<lambda>j. etd_theta s ! j + delta_i_at a (ETD_delta s a) M 0 (etd_D s) (etd_e s) j)
             [0..<nat (etd_n s)] = etd_theta s"
    using len by (intro nth_equalityI) (simp_all add: d0 L fv)
  have E: "map (e_at a 0 (etd_e s)) [0..<nat (etd_n s)] = replicate (nat (etd_n s)) 0"
    by (intro nth_equalityI) (simp_all add: e0)
  have D: "foldl (\<lambda>acc j. acc + delta_i_at a (ETD_delta s a) M 0 (etd_D s) (etd_e s) j
                             * a_phi_p a ! j) 0 [0..<nat (etd_n s)] = 0"
    by (rule foldl_zero_terms [OF laws]) (simp add: d0 L fv)
  have F: "(etd_F s + a_I a) * (a_rho a * a_gamma_p a) = 0"
    by (simp add: rho L f locals(1))
  show ?thesis
    unfolding ETD_learn_wf_foldl [OF wf b] M_def [symmetric] S by (simp only: T E D F)
qed

theorem ETD_learn_rho_zero_witness:
  "float_laws dbl_finite \<and> ETD_wf dbl_state \<and> a_rho rho0_dbl_args = 0
   \<and> in_bounds (etd_n dbl_state) (a_phi rho0_dbl_args)
   \<and> in_bounds (etd_n dbl_state) (a_phi_p rho0_dbl_args)
   \<and> ETD_finite_inputs dbl_finite dbl_state rho0_dbl_args
   \<and> dbl_finite (etd_F dbl_state + a_I rho0_dbl_args)
   \<and> dbl_finite (ETD_delta dbl_state rho0_dbl_args)
   \<and> dbl_finite (ETD_M rho0_dbl_args (etd_F dbl_state + a_I rho0_dbl_args))
   \<and> dbl_finite (ETD_dot (etd_n dbl_state) (a_phi rho0_dbl_args) (etd_e dbl_state))
   \<and> ETD_learn dbl_state rho0_dbl_args =
       Inr \<lparr>etd_n = 2, etd_theta = [Num 1, Num 2], etd_e = [0, 0], etd_F = 0, etd_D = 0\<rparr>"
proof -
  have h1: "ETD_wf dbl_state"
    by (simp add: ETD_wf_def dbl_state_def)
  have h2: "a_rho rho0_dbl_args = 0"
    by (simp add: rho0_dbl_args_def)
  have h3: "in_bounds (etd_n dbl_state) (a_phi rho0_dbl_args)"
    "in_bounds (etd_n dbl_state) (a_phi_p rho0_dbl_args)"
    by (simp_all add: in_bounds_def dbl_state_def rho0_dbl_args_def)
  have h4: "ETD_finite_inputs dbl_finite dbl_state rho0_dbl_args"
    by (simp add: ETD_finite_inputs_def fin_vec_def dbl_state_def rho0_dbl_args_def dbl_arith)
  have h5: "dbl_finite (etd_F dbl_state + a_I rho0_dbl_args)"
    "dbl_finite (ETD_delta dbl_state rho0_dbl_args)"
    "dbl_finite (ETD_M rho0_dbl_args (etd_F dbl_state + a_I rho0_dbl_args))"
    "dbl_finite (ETD_dot (etd_n dbl_state) (a_phi rho0_dbl_args) (etd_e dbl_state))"
    by (simp_all add: ETD_eval dbl_state_def rho0_dbl_args_def dbl_arith numeral_2_eq_2)
  show ?thesis
    using dbl_float_laws h1 h2 h3 h4 h5
      ETD_learn_rho_zero [OF dbl_float_laws h1 h2 h3 h4 h5]
    by (simp add: dbl_state_def numeral_2_eq_2)
qed

text \<open>
  Claim C10, as stated, fails on doubles. After one call with \<open>alpha = 2^1000\<close> a
  learner of dimension \<open>1\<close> holds the finite trace \<open>2^1000\<close>. The call with \<open>rho = 0\<close> and
  \<open>phi = [2^1000]\<close> computes \<open>dot(phi, trace) = inf\<close> and \<open>0 * inf = NaN\<close>, and leaves
  weight, trace and dual NaN.
\<close>

theorem ETD_learn_rho_zero_counterexample:
  "ETD_learn (ETD_fresh 1) grow_args = Inr grown_state
   \<and> dbl_finite big
   \<and> a_rho rho0_big_args = 0
   \<and> ETD_learn grown_state rho0_big_args
       = Inr \<lparr>etd_n = 1, etd_theta = [NaN], etd_e = [NaN], etd_F = 0, etd_D = NaN\<rparr>"
  by (simp add: ETD_eval dbl_arith grow_args_def grown_state_def rho0_big_args_def big_def)

end
